theory Spec2Isabelle
  imports Complex_Main
begin

section \<open>Data of the vacancy pipeline\<close>

text \<open>
  The records that the listing endpoint returns are Python dicts. The model keeps the keys the
  code reads: \<open>name\<close>, \<open>salary\<close> (with \<open>from\<close> and \<open>to\<close>) and \<open>alternate_url\<close>.
  A field is \<open>None\<close> when \<open>dict.get\<close> gives \<open>None\<close> (key absent or null); for \<open>name\<close> and
  \<open>alternate_url\<close>, where the code passes a default to \<open>get\<close>, \<open>None\<close> is the absent key.
  Salary bounds are Python integers.
\<close>

record salary_info =
  salary_from :: "int option"
  salary_to :: "int option"

record vacancy =
  vac_name :: "string option"
  vac_salary :: "salary_info option"
  vac_alternate_url :: "string option"

text \<open>Exceptions are values. The first two are raised by the HTTP client, the others by
  Python itself and by the database driver.\<close>

datatype error =
    RequestException
  | JSONDecodeError
  | TypeError
  | ZeroDivisionError
  | DataError
  | IntegrityError
  | InFailedSqlTransaction

section \<open>Fetching the pages of one company\<close>

text \<open>
  \<open>get_vacancies_for_company\<close> is defined twice, in \<open>db_manager.py\<close> and in \<open>hh_api.py\<close>, with
  the same body; one model stands for both.
  \<open>requests.get(url, params=params)\<close>: the request is the URL with the query parameters, the
  answer is an exception of the client or a response. \<open>response.json()\<close> is an exception or
  the decoded body, of which the code reads the key \<open>items\<close> only (\<open>None\<close>: key absent).
  The transport is a parameter of the model: the answer depends on the request alone.
\<close>

record request =
  req_url :: string
  req_employer_id :: "string option"
  req_per_page :: nat
  req_page :: nat

record response =
  status_code :: int
  json :: "error + vacancy list option"

type_synonym transport = "request \<Rightarrow> error + response"

text \<open>What a fetch does besides returning: the requests it issues and the status line it
  prints, in order.\<close>

datatype fetch_event = Requested request | Printed_status int

definition BASE_URL :: string where
  "BASE_URL = ''https://api.hh.ru/''"

text \<open>\<open>data.get('items', [])\<close>\<close>

definition get_items :: "vacancy list option \<Rightarrow> vacancy list" where
  "get_items data = (case data of None \<Rightarrow> [] | Some items \<Rightarrow> items)"

text \<open>Python's truth value of \<open>company_id\<close> (\<open>None\<close> or a string).\<close>

definition truthy_str :: "string option \<Rightarrow> bool" where
  "truthy_str s = (case s of None \<Rightarrow> False | Some x \<Rightarrow> x \<noteq> [])"

text \<open>\<open>params\<close> with \<open>params['page'] = page\<close>.\<close>

definition page_request :: "string option \<Rightarrow> nat \<Rightarrow> request" where
  "page_request company_id page =
     \<lparr> req_url = BASE_URL @ ''vacancies'',
       req_employer_id = (if truthy_str company_id then company_id else None),
       req_per_page = 100,
       req_page = page \<rparr>"

text \<open>The body of \<open>for page in range(pages)\<close>, over the page indices still to come, with the
  events so far and \<open>all_vacancies\<close>. An exception leaves the loop and the function.\<close>

fun fetch_pages ::
  "transport \<Rightarrow> string option \<Rightarrow> nat list \<Rightarrow> fetch_event list \<Rightarrow> vacancy list
     \<Rightarrow> fetch_event list \<times> (error + vacancy list)" where
  "fetch_pages get company_id [] evs all_vacancies = (evs, Inr all_vacancies)"
| "fetch_pages get company_id (page # rest) evs all_vacancies =
     (let rq = page_request company_id page; evs1 = evs @ [Requested rq] in
      case get rq of
        Inl e \<Rightarrow> (evs1, Inl e)
      | Inr response \<Rightarrow>
          if status_code response = 200 then
            (case json response of
               Inl e \<Rightarrow> (evs1, Inl e)
             | Inr data \<Rightarrow>
                 let all1 = all_vacancies @ get_items data in
                 if length (get_items data) < 100 then (evs1, Inr all1)
                 else fetch_pages get company_id rest evs1 all1)
          else (evs1 @ [Printed_status (status_code response)], Inr all_vacancies))"

definition get_vacancies_for_company ::
  "transport \<Rightarrow> string option \<Rightarrow> nat \<Rightarrow> fetch_event list \<times> (error + vacancy list)" where
  "get_vacancies_for_company get company_id pages =
     fetch_pages get company_id [0..<pages] [] []"

text \<open>A page that the loop reads and goes past: status 200, a body that decodes, and this
  list of items.\<close>

definition page_is :: "transport \<Rightarrow> string option \<Rightarrow> nat \<Rightarrow> vacancy list \<Rightarrow> bool" where
  "page_is get company_id i items =
     (case get (page_request company_id i) of
        Inl e \<Rightarrow> False
      | Inr response \<Rightarrow>
          status_code response = 200 \<and>
          (case json response of Inl e \<Rightarrow> False | Inr data \<Rightarrow> get_items data = items))"

section \<open>The database behind \<open>DBManager\<close>\<close>

text \<open>
  The two tables, as the statements of \<open>DBManager\<close> use them. A row's \<open>id\<close> is given by the
  store (\<open>RETURNING id\<close>): a sequence per table, which also counts the inserts that a conflict
  skips.
\<close>

record company_row =
  c_id :: int
  c_name :: string
  c_industry :: "string option"
  c_area :: "string option"

record vacancy_row =
  v_id :: int
  v_title :: string
  v_salary_min :: "int option"
  v_salary_max :: "int option"
  v_url :: string
  v_company_id :: int

text \<open>The parameters of one vacancy insert:
  \<open>(title, salary_min, salary_max, url, company_id)\<close>.\<close>

type_synonym vacancy_tuple = "string \<times> int option \<times> int option \<times> string \<times> int"

definition tuple_url :: "vacancy_tuple \<Rightarrow> string" where
  "tuple_url t = (case t of (title, salary_min, salary_max, url, company_id) \<Rightarrow> url)"

definition tuple_company_id :: "vacancy_tuple \<Rightarrow> int" where
  "tuple_company_id t = (case t of (title, salary_min, salary_max, url, company_id) \<Rightarrow> company_id)"

definition row_tuple :: "vacancy_row \<Rightarrow> vacancy_tuple" where
  "row_tuple v = (v_title v, v_salary_min v, v_salary_max v, v_url v, v_company_id v)"

text \<open>
  \<open>self.connection\<close> with \<open>self.cursor\<close>: the committed tables, the sequences, and whether the
  connection's transaction has failed. After a statement has failed, the driver refuses every
  further \<open>execute\<close> with \<open>InFailedSqlTransaction\<close> until the transaction is ended; the code
  never calls \<open>rollback\<close>.
\<close>

record db_manager =
  companies_table :: "company_row list"
  vacancies_table :: "vacancy_row list"
  companies_id_seq :: int
  vacancies_id_seq :: int
  failed_transaction :: bool

text \<open>\<open>self.connection.commit()\<close> ends the transaction, a failed one too.\<close>

definition commit :: "db_manager \<Rightarrow> db_manager" where
  "commit self = self\<lparr> failed_transaction := False \<rparr>"

text \<open>\<open>cursor.fetchone()\<close> on the rows a statement returned.\<close>

definition fetchone :: "'a list \<Rightarrow> 'a option" where
  "fetchone rows = (case rows of [] \<Rightarrow> None | r # rs \<Rightarrow> Some r)"

text \<open>\<open>INSERT INTO companies (name, industry, area) VALUES (%s, %s, %s)
  ON CONFLICT (name) DO NOTHING RETURNING id\<close>: the rows returned, and the connection.\<close>

definition execute_insert_company ::
  "db_manager \<Rightarrow> string \<Rightarrow> string option \<Rightarrow> string option \<Rightarrow> error + int list \<times> db_manager" where
  "execute_insert_company self company_name industry area =
     (if failed_transaction self then Inl InFailedSqlTransaction
      else
        let new_id = companies_id_seq self;
            self1 = self\<lparr> companies_id_seq := new_id + 1 \<rparr>
        in if \<exists>c \<in> set (companies_table self). c_name c = company_name
           then Inr ([], self1)
           else Inr ([new_id],
                  self1\<lparr> companies_table := companies_table self @
                    [\<lparr> c_id = new_id, c_name = company_name,
                       c_industry = industry, c_area = area \<rparr>] \<rparr>))"

text \<open>\<open>SELECT id FROM companies WHERE name = %s\<close>\<close>

definition execute_select_company_id :: "db_manager \<Rightarrow> string \<Rightarrow> error + int list" where
  "execute_select_company_id self company_name =
     (if failed_transaction self then Inl InFailedSqlTransaction
      else Inr (map c_id (filter (\<lambda>c. c_name c = company_name) (companies_table self))))"

text \<open>\<open>DBManager.insert_company\<close>. \<open>self.cursor.fetchone()[0]\<close> on no row is a
  \<open>TypeError\<close>.\<close>

definition insert_company ::
  "db_manager \<Rightarrow> string \<Rightarrow> string option \<Rightarrow> string option \<Rightarrow> (error + int) \<times> db_manager" where
  "insert_company self company_name industry area =
     (case execute_insert_company self company_name industry area of
        Inl e \<Rightarrow> (Inl e, self)
      | Inr (rows, self1) \<Rightarrow>
          let self2 = commit self1 in
          (case fetchone rows of
             Some result \<Rightarrow> (Inr result, self2)
           | None \<Rightarrow>
               (case execute_select_company_id self2 company_name of
                  Inl e \<Rightarrow> (Inl e, self2)
                | Inr rows2 \<Rightarrow>
                    (case fetchone rows2 of
                       None \<Rightarrow> (Inl TypeError, self2)
                     | Some result \<Rightarrow> (Inr result, self2)))))"

text \<open>The row that an insert adds for a tuple, under the id the sequence gives.\<close>

definition new_row :: "int \<Rightarrow> vacancy_tuple \<Rightarrow> vacancy_row" where
  "new_row i t = (case t of (title, salary_min, salary_max, url, company_id) \<Rightarrow>
     \<lparr> v_id = i, v_title = title, v_salary_min = salary_min,
       v_salary_max = salary_max, v_url = url, v_company_id = company_id \<rparr>)"

text \<open>
  \<open>INSERT INTO vacancies (title, salary_min, salary_max, url, company_id)
  VALUES (%s, %s, %s, %s, %s) ON CONFLICT (url) DO NOTHING\<close>, one statement: its outcome and
  the connection after it.

  Modelled from the spec: the declaration of the vacancies table, which is not part of the
  code: \<open>vacancies(id PK, title NOT NULL, salary_min NULL INT, salary_max NULL INT,
  url UNIQUE NOT NULL, company_id FK)\<close>. Which parameters the store refuses for their values
  (a number outside the column's type) is the parameter \<open>rejects\<close>; the store checks the
  values first, before it takes an id. It then looks for a conflict and skips the row on one.
  The foreign key is checked for a row that is inserted, not for a skipped one: a
  \<open>company_id\<close> that is the id of no company row fails the statement with an
  \<open>IntegrityError\<close>, after the sequence has given the id.
\<close>

definition execute_insert_vacancy ::
  "(vacancy_tuple \<Rightarrow> bool) \<Rightarrow> db_manager \<Rightarrow> vacancy_tuple \<Rightarrow> (error + unit) \<times> db_manager" where
  "execute_insert_vacancy rejects self t =
     (if failed_transaction self then (Inl InFailedSqlTransaction, self)
      else if rejects t then (Inl DataError, self)
      else
        let new_id = vacancies_id_seq self;
            self1 = self\<lparr> vacancies_id_seq := new_id + 1 \<rparr>
        in if \<exists>v \<in> set (vacancies_table self). v_url v = tuple_url t
           then (Inr (), self1)
           else if \<exists>c \<in> set (companies_table self). c_id c = tuple_company_id t
           then (Inr (), self1\<lparr> vacancies_table := vacancies_table self @ [new_row new_id t] \<rparr>)
           else (Inl IntegrityError, self1))"

text \<open>\<open>cursor.executemany(query, vacancies)\<close>: the statement once per tuple, in order, in
  the connection's open transaction; the first failure ends it.\<close>

fun executemany_insert_vacancy ::
  "(vacancy_tuple \<Rightarrow> bool) \<Rightarrow> db_manager \<Rightarrow> vacancy_tuple list
     \<Rightarrow> (error + unit) \<times> db_manager" where
  "executemany_insert_vacancy rejects self [] = (Inr (), self)"
| "executemany_insert_vacancy rejects self (t # ts) =
     (case execute_insert_vacancy rejects self t of
        (Inl e, self1) \<Rightarrow> (Inl e, self1)
      | (Inr u, self1) \<Rightarrow> executemany_insert_vacancy rejects self1 ts)"

text \<open>\<open>DBManager.insert_vacancies_bulk\<close>. When a statement fails, the exception leaves the
  method before \<open>commit\<close>: the rows of this batch are not committed (they never will be), the
  ids that the sequence gave stay taken, and the transaction stays failed.\<close>

definition insert_vacancies_bulk ::
  "(vacancy_tuple \<Rightarrow> bool) \<Rightarrow> db_manager \<Rightarrow> vacancy_tuple list \<Rightarrow> (error + unit) \<times> db_manager" where
  "insert_vacancies_bulk rejects self vacancies_data =
     (case executemany_insert_vacancy rejects self vacancies_data of
        (Inl e, self1) \<Rightarrow>
          (Inl e, self\<lparr> vacancies_id_seq := vacancies_id_seq self1,
                        failed_transaction := True \<rparr>)
      | (Inr u, self1) \<Rightarrow> (Inr (), commit self1))"

text \<open>
  Modelled from the spec: what the declared columns refuse. A title and a URL are never null
  in the model; of the values the code can pass, the store refuses a salary outside the
  32-bit range of \<open>INT\<close>.
\<close>

definition int_column_ok :: "int option \<Rightarrow> bool" where
  "int_column_ok x = (case x of None \<Rightarrow> True | Some n \<Rightarrow> - 2147483648 \<le> n \<and> n \<le> 2147483647)"

definition schema_rejects :: "vacancy_tuple \<Rightarrow> bool" where
  "schema_rejects t =
     (case t of (title, salary_min, salary_max, url, company_id) \<Rightarrow>
        \<not> (int_column_ok salary_min \<and> int_column_ok salary_max))"

section \<open>The coordinator\<close>

text \<open>A company descriptor: \<open>company['id']\<close> and \<open>company['name']\<close> are read with a subscript,
  \<open>industry\<close> and \<open>area\<close> with \<open>get\<close>.\<close>

record company =
  co_id :: string
  co_name :: string
  co_industry :: "string option"
  co_area :: "string option"

text \<open>The defaults of \<open>vacancy.get('name', ...)\<close> and \<open>vacancy.get('alternate_url', ...)\<close>,
  two Russian phrases, as their UTF-8 bytes.\<close>

definition title_placeholder :: string where
  "title_placeholder =
     [CHR 0xD0, CHR 0x9D, CHR 0xD0, CHR 0xB5, CHR 0x20, CHR 0xD1, CHR 0x83, CHR 0xD0, CHR 0xBA,
      CHR 0xD0, CHR 0xB0, CHR 0xD0, CHR 0xB7, CHR 0xD0, CHR 0xB0, CHR 0xD0, CHR 0xBD, CHR 0xD0,
      CHR 0xBE]"

definition url_placeholder :: string where
  "url_placeholder =
     [CHR 0xD0, CHR 0x9D, CHR 0xD0, CHR 0xB5, CHR 0xD1, CHR 0x82, CHR 0x20, CHR 0xD1, CHR 0x81,
      CHR 0xD1, CHR 0x81, CHR 0xD1, CHR 0x8B, CHR 0xD0, CHR 0xBB, CHR 0xD0, CHR 0xBA, CHR 0xD0,
      CHR 0xB8]"

text \<open>\<open>d.get(key, default)\<close> for a key that holds a string when present.\<close>

definition get_or :: "'a option \<Rightarrow> 'a \<Rightarrow> 'a" where
  "get_or x d = (case x of None \<Rightarrow> d | Some y \<Rightarrow> y)"

text \<open>The tuple that the loop over \<open>vacancies\<close> appends to \<open>vacancies_data\<close>. A salary
  sub-object that is absent, null or empty gives no bounds.\<close>

definition vacancy_data :: "int \<Rightarrow> vacancy \<Rightarrow> vacancy_tuple" where
  "vacancy_data company_id vacancy =
     (let title = get_or (vac_name vacancy) title_placeholder;
          salary_info = vac_salary vacancy;
          salary_min = (case salary_info of None \<Rightarrow> None | Some s \<Rightarrow> salary_from s);
          salary_max = (case salary_info of None \<Rightarrow> None | Some s \<Rightarrow> salary_to s);
          vacancy_url = get_or (vac_alternate_url vacancy) url_placeholder
      in (title, salary_min, salary_max, vacancy_url, company_id))"

text \<open>What the coordinator does, in order: its calls of \<open>db_manager\<close> with their outcome,
  and what it prints.\<close>

datatype event =
    Insert_company string "string option" "string option" "error + int"
  | Insert_vacancies_bulk "vacancy_tuple list" "error + unit"
  | Printed_vacancy string "int option" "int option" string
  | Printed_error string error

definition print_vacancy :: "vacancy_tuple \<Rightarrow> event" where
  "print_vacancy t =
     (case t of (title, salary_min, salary_max, vacancy_url, company_id) \<Rightarrow>
        Printed_vacancy title salary_min salary_max vacancy_url)"

text \<open>
  The body of \<open>for future in futures\<close> for one company, given what \<open>future.result()\<close> holds:
  the list that the fetch returned, or the exception it raised. Everything is inside
  \<open>try ... except Exception\<close>.
\<close>

definition company_task ::
  "(vacancy_tuple \<Rightarrow> bool) \<Rightarrow> db_manager \<times> event list \<Rightarrow> company \<times> (error + vacancy list)
     \<Rightarrow> db_manager \<times> event list" where
  "company_task rejects st fut =
     (case st of (db, out) \<Rightarrow> case fut of (company, result) \<Rightarrow>
        let company_name = co_name company;
            industry = co_industry company;
            area = co_area company
        in case result of
             Inl e \<Rightarrow> (db, out @ [Printed_error company_name e])
           | Inr vacancies \<Rightarrow>
               if vacancies \<noteq> [] then
                 (case insert_company db company_name industry area of
                    (Inl e, db1) \<Rightarrow>
                      (db1, out @ [Insert_company company_name industry area (Inl e),
                                   Printed_error company_name e])
                  | (Inr company_id, db1) \<Rightarrow>
                      let vacancies_data = map (vacancy_data company_id) vacancies;
                          out1 = out @ [Insert_company company_name industry area (Inr company_id)]
                                     @ map print_vacancy vacancies_data
                      in (case insert_vacancies_bulk rejects db1 vacancies_data of
                            (Inl e, db2) \<Rightarrow>
                              (db2, out1 @ [Insert_vacancies_bulk vacancies_data (Inl e),
                                            Printed_error company_name e])
                          | (Inr u, db2) \<Rightarrow>
                              (db2, out1 @ [Insert_vacancies_bulk vacancies_data (Inr u)])))
               else (db, out))"

text \<open>
  \<open>get_all_vacancies_for_companies\<close> of \<open>db_manager.py\<close>. The pool runs one fetch of five pages
  per company; the transport answers by the request alone, so each fetch has the result it
  has when run by itself. The loop takes the futures in the order of \<open>companies\<close> and waits
  for each; leaving the \<open>with\<close> block waits for the pool.
\<close>

definition get_all_vacancies_for_companies ::
  "transport \<Rightarrow> (vacancy_tuple \<Rightarrow> bool) \<Rightarrow> company list \<Rightarrow> db_manager
     \<Rightarrow> db_manager \<times> event list" where
  "get_all_vacancies_for_companies get rejects companies db_manager =
     (if companies \<noteq> [] then
        let futures = map (\<lambda>company.
              (company, snd (get_vacancies_for_company get (Some (co_id company)) 5))) companies
        in foldl (company_task rejects) (db_manager, []) futures
      else (db_manager, []))"

text \<open>
  Referential integrity of a database state: the \<open>company_id\<close> of every vacancy row is the
  \<open>id\<close> of a company row.
\<close>

definition fk_ok :: "db_manager \<Rightarrow> bool" where
  "fk_ok self =
     (\<forall>v \<in> set (vacancies_table self). v_company_id v \<in> c_id ` set (companies_table self))"

text \<open>
  The order of the calls in a list of events, read from the left with the id that the last
  \<open>insert_company\<close> returned and no \<open>insert_vacancies_bulk\<close> has used yet: a bulk insert needs
  such an id, and every tuple of it must carry that id.
\<close>

fun track_call :: "bool \<times> int option \<Rightarrow> event \<Rightarrow> bool \<times> int option" where
  "track_call (ok, cur) (Insert_company company_name industry area r) =
     (ok, case r of Inl e \<Rightarrow> None | Inr company_id \<Rightarrow> Some company_id)"
| "track_call (ok, cur) (Insert_vacancies_bulk vacancies_data r) =
     (ok \<and> (case cur of
              None \<Rightarrow> False
            | Some company_id \<Rightarrow> list_all (\<lambda>t. tuple_company_id t = company_id) vacancies_data),
      None)"
| "track_call (ok, cur) (Printed_vacancy title salary_min salary_max vacancy_url) = (ok, cur)"
| "track_call (ok, cur) (Printed_error company_name e) = (ok, cur)"

definition calls_ok :: "event list \<Rightarrow> bool" where
  "calls_ok evs = fst (foldl track_call (True, None) evs)"

section \<open>Average salary\<close>

text \<open>
  The numbers of both computations are modelled as exact rationals. (The store computes in
  \<open>numeric\<close>, Python in floating point: the rounding of the final quotient is not
  modelled.)
\<close>

text \<open>\<open>COALESCE(x, d)\<close> for an integer column.\<close>

definition coalesce :: "int option \<Rightarrow> int \<Rightarrow> int" where
  "coalesce x d = (case x of None \<Rightarrow> d | Some n \<Rightarrow> n)"

text \<open>\<open>AVG\<close> over the selected rows; \<open>NULL\<close> over no row.\<close>

definition sql_avg :: "rat list \<Rightarrow> rat option" where
  "sql_avg xs = (if xs = [] then None else Some (sum_list xs / of_nat (length xs)))"

text \<open>
  Modelled from the spec: \<open>salary_min\<close> and \<open>salary_max\<close> are \<open>INT\<close> columns (the declaration
  of the table is not part of the code). The store adds two \<open>INT\<close> values in 32 bits and
  raises \<open>integer out of range\<close>, a \<open>DataError\<close>, when the sum does not fit.
\<close>

definition int4_add :: "int \<Rightarrow> int \<Rightarrow> error + int" where
  "int4_add a b =
     (if - 2147483648 \<le> a + b \<and> a + b \<le> 2147483647 then Inr (a + b) else Inl DataError)"

text \<open>The argument of \<open>AVG\<close>, \<open>(COALESCE(v.salary_min, 0) + COALESCE(v.salary_max, 0)) / 2.0\<close>,
  on the selected rows; the first row on which it raises ends the query.\<close>

fun avg_arguments :: "vacancy_row list \<Rightarrow> error + rat list" where
  "avg_arguments [] = Inr []"
| "avg_arguments (v # vs) =
     (case int4_add (coalesce (v_salary_min v) 0) (coalesce (v_salary_max v) 0) of
        Inl e \<Rightarrow> Inl e
      | Inr s \<Rightarrow>
          (case avg_arguments vs of
             Inl e \<Rightarrow> Inl e
           | Inr xs \<Rightarrow> Inr (of_int s / 2 # xs)))"

text \<open>\<open>DBManager.get_avg_salary\<close>:
  \<open>SELECT AVG((COALESCE(v.salary_min, 0) + COALESCE(v.salary_max, 0)) / 2.0) FROM vacancies v
  WHERE v.salary_min IS NOT NULL OR v.salary_max IS NOT NULL\<close>, then \<open>fetchone()[0]\<close>: what it
  returns or raises, and the connection after it. A query that raises leaves the
  transaction failed.\<close>

definition get_avg_salary :: "db_manager \<Rightarrow> (error + rat option) \<times> db_manager" where
  "get_avg_salary self =
     (if failed_transaction self then (Inl InFailedSqlTransaction, self)
      else
        case avg_arguments
               (filter (\<lambda>v. v_salary_min v \<noteq> None \<or> v_salary_max v \<noteq> None)
                 (vacancies_table self)) of
          Inl e \<Rightarrow> (Inl e, self\<lparr> failed_transaction := True \<rparr>)
        | Inr xs \<Rightarrow> (Inr (sql_avg xs), self))"

text \<open>Python's truth value of \<open>salary.get('from')\<close>: \<open>None\<close> and \<open>0\<close> are false.\<close>

definition truthy_int :: "int option \<Rightarrow> bool" where
  "truthy_int x = (case x of None \<Rightarrow> False | Some n \<Rightarrow> n \<noteq> 0)"

text \<open>\<open>salary.get('from', 0) or 0\<close>\<close>

definition or_zero :: "int option \<Rightarrow> int" where
  "or_zero x = (case x of None \<Rightarrow> 0 | Some n \<Rightarrow> if n \<noteq> 0 then n else 0)"

text \<open>The body of the inner loop of \<open>calculate_average_salary\<close>, on \<open>total_salary\<close> and
  \<open>salary_count\<close>. An empty \<open>salary\<close> dict is false, and so is the second operand of
  \<open>and\<close> on a dict without bounds.\<close>

definition add_salary :: "rat \<times> nat \<Rightarrow> vacancy \<Rightarrow> rat \<times> nat" where
  "add_salary acc vacancy =
     (case acc of (total_salary, salary_count) \<Rightarrow>
        case vac_salary vacancy of
          None \<Rightarrow> acc
        | Some salary \<Rightarrow>
            if truthy_int (salary_from salary) \<or> truthy_int (salary_to salary) then
              let sal_from = or_zero (salary_from salary);
                  sal_to = or_zero (salary_to salary);
                  average =
                    (if sal_from \<noteq> 0 \<and> sal_to \<noteq> 0 then of_int (sal_from + sal_to) / 2
                     else of_int (if sal_from \<noteq> 0 then sal_from else sal_to))
              in (total_salary + average, salary_count + 1)
            else acc)"

text \<open>Python's \<open>/\<close> raises on a zero divisor.\<close>

definition py_truediv :: "rat \<Rightarrow> nat \<Rightarrow> error + rat" where
  "py_truediv a b = (if b = 0 then Inl ZeroDivisionError else Inr (a / of_nat b))"

text \<open>The two loops of \<open>calculate_average_salary\<close> over
  \<open>vacancies_by_company.values()\<close>: \<open>total_salary\<close> and \<open>salary_count\<close> at their end. The dict
  is the list of its items.\<close>

definition salary_totals :: "(string \<times> vacancy list) list \<Rightarrow> rat \<times> nat" where
  "salary_totals vacancies_by_company =
     foldl (\<lambda>acc vacancies. foldl add_salary acc vacancies) (0, 0)
       (map snd vacancies_by_company)"

text \<open>\<open>calculate_average_salary\<close> of \<open>hh_api.py\<close>.\<close>

definition calculate_average_salary :: "(string \<times> vacancy list) list \<Rightarrow> error + rat" where
  "calculate_average_salary vacancies_by_company =
     (case salary_totals vacancies_by_company of
        (total_salary, salary_count) \<Rightarrow>
          if salary_count > 0 then py_truediv total_salary salary_count else Inr 0)"

text \<open>The two bounds of a vacancy as the pipeline stores them (\<open>vacancy_data\<close>).\<close>

definition vacancy_bounds :: "vacancy \<Rightarrow> int option \<times> int option" where
  "vacancy_bounds vacancy =
     (case vac_salary vacancy of None \<Rightarrow> (None, None) | Some s \<Rightarrow> (salary_from s, salary_to s))"

definition row_bounds :: "vacancy_row \<Rightarrow> int option \<times> int option" where
  "row_bounds v = (v_salary_min v, v_salary_max v)"

text \<open>
  The average as the specification words it: over the vacancies with at least one bound
  present, the mean of \<open>(coalesce(min, 0) + coalesce(max, 0)) / 2\<close>.
\<close>

definition spec_bound_present :: "int option \<times> int option \<Rightarrow> bool" where
  "spec_bound_present b = (fst b \<noteq> None \<or> snd b \<noteq> None)"

definition spec_midpoint :: "int option \<times> int option \<Rightarrow> rat" where
  "spec_midpoint b = (of_int (coalesce (fst b) 0) + of_int (coalesce (snd b) 0)) / 2"

definition spec_average_salary :: "(int option \<times> int option) list \<Rightarrow> rat" where
  "spec_average_salary bounds =
     sum_list (map spec_midpoint (filter spec_bound_present bounds))
       / of_nat (length (filter spec_bound_present bounds))"

text \<open>The two bounds of a row add up within the 32-bit range of \<open>INT\<close>.\<close>

definition sum_fits :: "int option \<times> int option \<Rightarrow> bool" where
  "sum_fits b =
     (- 2147483648 \<le> coalesce (fst b) 0 + coalesce (snd b) 0 \<and>
      coalesce (fst b) 0 + coalesce (snd b) 0 \<le> 2147483647)"

text \<open>What \<open>calculate_average_salary\<close> counts instead: a vacancy with a bound that is present
  and not zero, at the midpoint when both bounds are so and at the one such bound
  otherwise.\<close>

definition api_counts :: "int option \<times> int option \<Rightarrow> bool" where
  "api_counts b = (truthy_int (fst b) \<or> truthy_int (snd b))"

definition api_salary :: "int option \<times> int option \<Rightarrow> rat" where
  "api_salary b =
     (if truthy_int (fst b) \<and> truthy_int (snd b)
      then (of_int (coalesce (fst b) 0) + of_int (coalesce (snd b) 0)) / 2
      else if truthy_int (fst b) then of_int (coalesce (fst b) 0)
      else of_int (coalesce (snd b) 0))"

section \<open>Keyword search\<close>

text \<open>\<open>s.startswith(sub)\<close> and \<open>sub in s\<close> on strings.\<close>

fun startswith :: "string \<Rightarrow> string \<Rightarrow> bool" where
  "startswith s [] = True"
| "startswith [] (c # sub) = False"
| "startswith (d # s) (c # sub) = (d = c \<and> startswith s sub)"

fun py_in :: "string \<Rightarrow> string \<Rightarrow> bool" where
  "py_in sub [] = (sub = [])"
| "py_in sub (d # s) = (startswith (d # s) sub \<or> py_in sub s)"

text \<open>What \<open>search_vacancies_by_keyword\<close> prints.\<close>

datatype search_line =
    Printed_company string
  | Printed_match vacancy
  | Printed_total string nat
  | Printed_end

text \<open>The dict \<open>matching_vacancies\<close> of \<open>search_vacancies_by_keyword\<close>, as the list of its
  items. \<open>str.lower\<close> is the parameter \<open>lower\<close>.\<close>

definition matching_vacancies ::
  "(string \<Rightarrow> string) \<Rightarrow> (string \<times> vacancy list) list \<Rightarrow> string
     \<Rightarrow> (string \<times> vacancy list) list" where
  "matching_vacancies lower vacancies_by_company keyword =
     (let keyword1 = lower keyword in
      map (\<lambda>(company_name, vacancies).
             (company_name,
              filter (\<lambda>vacancy. py_in keyword1 (lower (get_or (vac_name vacancy) []))) vacancies))
        vacancies_by_company)"

text \<open>\<open>search_vacancies_by_keyword\<close> of \<open>hh_api.py\<close>: it returns nothing and prints the
  matches company by company, then their number.\<close>

definition search_vacancies_by_keyword ::
  "(string \<Rightarrow> string) \<Rightarrow> (string \<times> vacancy list) list \<Rightarrow> string \<Rightarrow> search_line list" where
  "search_vacancies_by_keyword lower vacancies_by_company keyword =
     (let matching = matching_vacancies lower vacancies_by_company keyword;
          total_matching_vacancies = sum_list (map (\<lambda>(company_name, vacancies). length vacancies) matching)
      in concat (map (\<lambda>(company_name, vacancies).
                   if vacancies \<noteq> [] then Printed_company company_name # map Printed_match vacancies
                   else []) matching)
         @ [Printed_total (lower keyword) total_matching_vacancies, Printed_end])"

text \<open>
  \<open>LIKE\<close> patterns: \<open>%\<close> stands for any string, \<open>_\<close> for any one character, a backslash
  makes the next character stand for itself. A pattern that ends in a lone backslash is an
  error of the store.
\<close>

datatype like_token = Any_string | Any_char | Literal char

fun like_tokens :: "string \<Rightarrow> like_token list option" where
  "like_tokens [] = Some []"
| "like_tokens (c # cs) =
     (if c = CHR ''%'' then map_option (\<lambda>ts. Any_string # ts) (like_tokens cs)
      else if c = CHR ''_'' then map_option (\<lambda>ts. Any_char # ts) (like_tokens cs)
      else if c = CHR 0x5C then
        (case cs of
           [] \<Rightarrow> None
         | d # ds \<Rightarrow> map_option (\<lambda>ts. Literal d # ts) (like_tokens ds))
      else map_option (\<lambda>ts. Literal c # ts) (like_tokens cs))"

fun like_match :: "like_token list \<Rightarrow> string \<Rightarrow> bool" where
  "like_match [] s = (s = [])"
| "like_match (Any_string # ts) [] = like_match ts []"
| "like_match (Any_string # ts) (c # s) =
     (like_match ts (c # s) \<or> like_match (Any_string # ts) s)"
| "like_match (Any_char # ts) [] = False"
| "like_match (Any_char # ts) (c # s) = like_match ts s"
| "like_match (Literal d # ts) [] = False"
| "like_match (Literal d # ts) (c # s) = (d = c \<and> like_match ts s)"

text \<open>A character that stands for itself in a pattern.\<close>

definition plain_char :: "char \<Rightarrow> bool" where
  "plain_char c = (c \<noteq> CHR ''%'' \<and> c \<noteq> CHR ''_'' \<and> c \<noteq> CHR 0x5C)"

text \<open>\<open>DBManager.get_vacancies_with_keyword\<close>:
  \<open>SELECT v.title, v.salary_min, v.salary_max, v.url, c.name FROM vacancies v
  JOIN companies c ON v.company_id = c.id WHERE v.title ILIKE %s\<close> with the parameter
  \<open>'%' + keyword + '%'\<close>. \<open>ILIKE\<close> is \<open>LIKE\<close> on the pattern and the title in lower case.
  The query has no \<open>ORDER BY\<close>: the store may return the rows in any order, and the model
  lists them in the order of the table. A character of the model is a \<open>char\<close>; a title
  outside ASCII is not modelled character by character.\<close>

definition get_vacancies_with_keyword ::
  "(string \<Rightarrow> string) \<Rightarrow> db_manager \<Rightarrow> string
     \<Rightarrow> error + (string \<times> int option \<times> int option \<times> string \<times> string) list" where
  "get_vacancies_with_keyword lower self keyword =
     (if failed_transaction self then Inl InFailedSqlTransaction
      else case like_tokens (lower (''%'' @ keyword @ ''%'')) of
        None \<Rightarrow> Inl DataError
      | Some pattern \<Rightarrow>
          Inr (map (\<lambda>(v, c). (v_title v, v_salary_min v, v_salary_max v, v_url v, c_name c))
                (filter (\<lambda>(v, c). like_match pattern (lower (v_title v)))
                  (concat (map (\<lambda>v. map (\<lambda>c. (v, c))
                                  (filter (\<lambda>c. v_company_id v = c_id c) (companies_table self)))
                            (vacancies_table self))))))"

text \<open>Lower case of the ASCII letters, for the examples.\<close>

definition ascii_lower :: "string \<Rightarrow> string" where
  "ascii_lower s =
     map (\<lambda>c. if (65::nat) \<le> of_char c \<and> of_char c \<le> (90::nat)
              then char_of (of_char c + (32::nat)) else c) s"

section \<open>Example data\<close>

text \<open>Two transports: page 0 is full and page 1 has one item; page 0 is full and page 1 is
  refused.\<close>

definition demo_vacancy :: vacancy where
  "demo_vacancy = \<lparr> vac_name = Some ''dev'', vac_salary = None, vac_alternate_url = Some ''u1'' \<rparr>"

definition demo_pages :: "nat \<Rightarrow> vacancy list" where
  "demo_pages j = (if j = 0 then replicate 100 demo_vacancy else [demo_vacancy])"

definition demo_get :: transport where
  "demo_get rq = Inr \<lparr> status_code = 200, json = Inr (Some (demo_pages (req_page rq))) \<rparr>"

definition refusing_get :: transport where
  "refusing_get rq =
     (if req_page rq = 0
      then Inr \<lparr> status_code = 200, json = Inr (Some (demo_pages 0)) \<rparr>
      else Inr \<lparr> status_code = 503, json = Inl JSONDecodeError \<rparr>)"

text \<open>An empty database.\<close>

definition empty_db :: db_manager where
  "empty_db = \<lparr> companies_table = [], vacancies_table = [], companies_id_seq = 1,
                 vacancies_id_seq = 1, failed_transaction = False \<rparr>"

text \<open>A database with three companies and one vacancy, a batch in which the second and
  the third company repeat the stored URL and offer one new URL twice, and a store that
  refuses no value.\<close>

definition demo_db :: db_manager where
  "demo_db =
     \<lparr> companies_table =
         [\<lparr> c_id = 1, c_name = ''Acme'', c_industry = Some ''IT'', c_area = None \<rparr>,
          \<lparr> c_id = 2, c_name = ''Beta'', c_industry = None, c_area = None \<rparr>,
          \<lparr> c_id = 3, c_name = ''Gamma'', c_industry = None, c_area = None \<rparr>],
       vacancies_table =
         [\<lparr> v_id = 1, v_title = ''dev'', v_salary_min = Some 1000, v_salary_max = Some 2000,
            v_url = ''u1'', v_company_id = 1 \<rparr>],
       companies_id_seq = 4, vacancies_id_seq = 2, failed_transaction = False \<rparr>"


definition no_rejects :: "vacancy_tuple \<Rightarrow> bool" where
  "no_rejects t = False"

text \<open>
  Three companies and a transport for them: the first has one page of two vacancies, the
  second an empty page, the request for the third raises.
\<close>

definition acme :: company where
  "acme = \<lparr> co_id = ''1'', co_name = ''Acme'', co_industry = Some ''IT'', co_area = None \<rparr>"

definition idle :: company where
  "idle = \<lparr> co_id = ''2'', co_name = ''Idle'', co_industry = None, co_area = None \<rparr>"

definition offline :: company where
  "offline = \<lparr> co_id = ''3'', co_name = ''Offline'', co_industry = None, co_area = None \<rparr>"

definition acme_vacancies :: "vacancy list" where
  "acme_vacancies =
     [\<lparr> vac_name = Some ''dev'',
        vac_salary = Some \<lparr> salary_from = Some 1000, salary_to = Some 2000 \<rparr>,
        vac_alternate_url = Some ''u1'' \<rparr>,
      \<lparr> vac_name = Some ''ops'',
        vac_salary = Some \<lparr> salary_from = None, salary_to = None \<rparr>,
        vac_alternate_url = Some ''u2'' \<rparr>]"

definition three_get :: transport where
  "three_get rq =
     (if req_employer_id rq = Some ''1''
      then Inr \<lparr> status_code = 200, json = Inr (Some acme_vacancies) \<rparr>
      else if req_employer_id rq = Some ''2''
      then Inr \<lparr> status_code = 200, json = Inr (Some []) \<rparr>
      else Inl RequestException)"

text \<open>A company whose one vacancy offers a salary of three thousand million, and a
  transport that knows it besides the three companies above.\<close>

definition rich :: company where
  "rich = \<lparr> co_id = ''4'', co_name = ''Rich'', co_industry = None, co_area = None \<rparr>"

definition rich_vacancies :: "vacancy list" where
  "rich_vacancies =
     [\<lparr> vac_name = Some ''ceo'',
        vac_salary = Some \<lparr> salary_from = Some 3000000000, salary_to = None \<rparr>,
        vac_alternate_url = Some ''u9'' \<rparr>]"

definition four_get :: transport where
  "four_get rq =
     (if req_employer_id rq = Some ''4''
      then Inr \<lparr> status_code = 200, json = Inr (Some rich_vacancies) \<rparr>
      else three_get rq)"

text \<open>A vacancy with a lower bound only.\<close>

definition one_sided :: vacancy where
  "one_sided =
     \<lparr> vac_name = Some ''qa'',
       vac_salary = Some \<lparr> salary_from = Some 1000, salary_to = None \<rparr>,
       vac_alternate_url = Some ''u3'' \<rparr>"

text \<open>Vacancies that state no salary: no sub-object, and a lower bound of zero.\<close>

definition unpaid :: "vacancy list" where
  "unpaid =
     [\<lparr> vac_name = Some ''intern'', vac_salary = None, vac_alternate_url = Some ''u4'' \<rparr>,
      \<lparr> vac_name = Some ''volunteer'',
        vac_salary = Some \<lparr> salary_from = Some 0, salary_to = None \<rparr>,
        vac_alternate_url = Some ''u5'' \<rparr>]"

text \<open>A stored vacancy titled \<open>Team Lead\<close>, and the same vacancy as the endpoint lists it.\<close>

definition lead_db :: db_manager where
  "lead_db =
     \<lparr> companies_table =
         [\<lparr> c_id = 1, c_name = ''Acme'', c_industry = Some ''IT'', c_area = None \<rparr>],
       vacancies_table =
         [\<lparr> v_id = 1, v_title = ''Team Lead'', v_salary_min = None, v_salary_max = None,
            v_url = ''u7'', v_company_id = 1 \<rparr>],
       companies_id_seq = 2, vacancies_id_seq = 2, failed_transaction = False \<rparr>"

definition lead_vacancy :: vacancy where
  "lead_vacancy =
     \<lparr> vac_name = Some ''Team Lead'', vac_salary = None, vac_alternate_url = Some ''u7'' \<rparr>"

section \<open>Pagination\<close>

lemma fetch_pages_full:
  assumes "\<And>j. i \<le> j \<Longrightarrow> j < k \<Longrightarrow> page_is get cid j (ps j) \<and> 100 \<le> length (ps j)"
    and "i \<le> k" and "k \<le> n"
  shows "fetch_pages get cid [i..<n] evs acc =
         fetch_pages get cid [k..<n]
           (evs @ map (\<lambda>j. Requested (page_request cid j)) [i..<k])
           (acc @ concat (map ps [i..<k]))"
  using assms
proof (induction "k - i" arbitrary: i evs acc)
  case 0
  then show ?case by simp
next
  case (Suc d)
  then have lt: "i < k" and ik: "i < n" by simp_all
  have pg: "page_is get cid i (ps i)" and full: "100 \<le> length (ps i)"
    using Suc.prems(1) [of i] lt by simp_all
  have step: "fetch_pages get cid [i..<n] evs acc =
      fetch_pages get cid [Suc i..<n] (evs @ [Requested (page_request cid i)]) (acc @ ps i)"
    using pg full ik
    by (auto simp: upt_conv_Cons page_is_def Let_def split: sum.splits)
  have rest: "fetch_pages get cid [Suc i..<n] (evs @ [Requested (page_request cid i)]) (acc @ ps i) =
      fetch_pages get cid [k..<n]
        ((evs @ [Requested (page_request cid i)]) @ map (\<lambda>j. Requested (page_request cid j)) [Suc i..<k])
        ((acc @ ps i) @ concat (map ps [Suc i..<k]))"
  proof (rule Suc.hyps(1))
    show "d = k - Suc i" using Suc.hyps(2) by simp
    show "\<And>j. Suc i \<le> j \<Longrightarrow> j < k \<Longrightarrow> page_is get cid j (ps j) \<and> 100 \<le> length (ps j)"
      using Suc.prems(1) by simp
    show "Suc i \<le> k" using lt by simp
    show "k \<le> n" by (rule Suc.prems(3))
  qed
  show ?case using step rest lt by (simp add: upt_conv_Cons)
qed

text \<open>
  C1. If pages \<open>0..k-1\<close> have at least 100 items each, page \<open>k\<close> has fewer, and the fetch is
  allowed more than \<open>k\<close> pages, then it issues exactly the \<open>k+1\<close> requests for pages
  \<open>0, 1, ..., k\<close> in this order (and prints nothing), and returns the items of pages
  \<open>0..k\<close> concatenated in page order.
\<close>

theorem C1_pagination_stops_at_short_page:
  assumes "\<And>j. j < k \<Longrightarrow> page_is get cid j (ps j) \<and> 100 \<le> length (ps j)"
    and "page_is get cid k (ps k)" and "length (ps k) < 100"
    and "k < pages"
  shows "get_vacancies_for_company get cid pages =
           (map (\<lambda>j. Requested (page_request cid j)) [0..<Suc k],
            Inr (concat (map ps [0..<Suc k])))"
proof -
  have "fetch_pages get cid [0..<pages] [] [] =
        fetch_pages get cid [k..<pages]
          ([] @ map (\<lambda>j. Requested (page_request cid j)) [0..<k]) ([] @ concat (map ps [0..<k]))"
    by (rule fetch_pages_full) (use assms in simp_all)
  moreover have "fetch_pages get cid [k..<pages] evs acc =
      (evs @ [Requested (page_request cid k)], Inr (acc @ ps k))" for evs acc
    using assms(2,3,4)
    by (auto simp: upt_conv_Cons page_is_def Let_def split: sum.splits)
  ultimately show ?thesis
    by (simp add: get_vacancies_for_company_def)
qed

theorem C1_pagination_witness:
  "get_vacancies_for_company demo_get (Some ''1'') 5 =
     (map (\<lambda>j. Requested (page_request (Some ''1'') j)) [0..<Suc 1],
      Inr (concat (map demo_pages [0..<Suc 1])))"
proof (rule C1_pagination_stops_at_short_page)
  show "page_is demo_get (Some ''1'') j (demo_pages j) \<and> 100 \<le> length (demo_pages j)"
    if "j < 1" for j
    using that by (simp add: page_is_def demo_get_def demo_pages_def page_request_def get_items_def)
  show "page_is demo_get (Some ''1'') 1 (demo_pages 1)"
    by (simp add: page_is_def demo_get_def page_request_def get_items_def)
  show "length (demo_pages 1) < 100"
    by (simp add: demo_pages_def)
  show "(1::nat) < 5" by simp
qed

text \<open>
  C6. If pages \<open>0..p-1\<close> were read and passed (so that page \<open>p\<close> is requested at all) and the
  transport answers page \<open>p\<close> with a status other than 200, then the fetch has issued the
  requests for pages \<open>0..p\<close> and no other, prints the status, and returns (it does not raise)
  the items of pages \<open>0..p-1\<close> in page order.
\<close>

theorem C6_non_200_keeps_partial_result:
  assumes "\<And>j. j < p \<Longrightarrow> page_is get cid j (ps j) \<and> 100 \<le> length (ps j)"
    and "get (page_request cid p) = Inr response" and "status_code response \<noteq> 200"
    and "p < pages"
  shows "get_vacancies_for_company get cid pages =
           (map (\<lambda>j. Requested (page_request cid j)) [0..<Suc p]
              @ [Printed_status (status_code response)],
            Inr (concat (map ps [0..<p])))"
proof -
  have "fetch_pages get cid [0..<pages] [] [] =
        fetch_pages get cid [p..<pages]
          ([] @ map (\<lambda>j. Requested (page_request cid j)) [0..<p]) ([] @ concat (map ps [0..<p]))"
    by (rule fetch_pages_full) (use assms in simp_all)
  moreover have "fetch_pages get cid [p..<pages] evs acc =
      (evs @ [Requested (page_request cid p), Printed_status (status_code response)], Inr acc)"
    for evs acc
    using assms(2,3,4) by (simp add: upt_conv_Cons Let_def)
  ultimately show ?thesis
    by (simp add: get_vacancies_for_company_def)
qed

theorem C6_non_200_witness:
  "get_vacancies_for_company refusing_get (Some ''1'') 5 =
     (map (\<lambda>j. Requested (page_request (Some ''1'') j)) [0..<Suc 1] @ [Printed_status 503],
      Inr (concat (map demo_pages [0..<1])))"
proof -
  have full: "page_is refusing_get (Some ''1'') j (demo_pages j) \<and> 100 \<le> length (demo_pages j)"
    if "j < 1" for j
    using that by (simp add: page_is_def refusing_get_def demo_pages_def page_request_def get_items_def)
  have refused: "refusing_get (page_request (Some ''1'') 1) =
      Inr \<lparr> status_code = 503, json = Inl JSONDecodeError \<rparr>"
    by (simp add: refusing_get_def page_request_def)
  show ?thesis
    using C6_non_200_keeps_partial_result [of 1 refusing_get "Some ''1''" demo_pages, OF full refused]
    by simp
qed

section \<open>Inserting companies\<close>


lemma insert_company_new:
  assumes "\<not> failed_transaction self"
    and "\<forall>c \<in> set (companies_table self). c_name c \<noteq> company_name"
  shows "insert_company self company_name industry area =
           (Inr (companies_id_seq self),
            self\<lparr> companies_id_seq := companies_id_seq self + 1,
                  companies_table := companies_table self @
                    [\<lparr> c_id = companies_id_seq self, c_name = company_name,
                       c_industry = industry, c_area = area \<rparr>] \<rparr>)"
  using assms
  by (auto simp: insert_company_def execute_insert_company_def commit_def fetchone_def Let_def)

lemma insert_company_existing:
  assumes "\<not> failed_transaction self"
    and "filter (\<lambda>c. c_name c = company_name) (companies_table self) = c # cs"
  shows "insert_company self company_name industry area =
           (Inr (c_id c), self\<lparr> companies_id_seq := companies_id_seq self + 1 \<rparr>)"
proof -
  have "c \<in> set (filter (\<lambda>c. c_name c = company_name) (companies_table self))"
    using assms(2) by simp
  then have ex: "\<exists>c \<in> set (companies_table self). c_name c = company_name"
    by auto
  show ?thesis
    using assms ex
    by (simp add: insert_company_def execute_insert_company_def commit_def fetchone_def Let_def
        execute_select_company_id_def)
qed




section \<open>Inserting vacancies\<close>

lemma new_row_tuple [simp]: "row_tuple (new_row i t) = t" "v_url (new_row i t) = tuple_url t"
  by (cases t; simp add: row_tuple_def new_row_def tuple_url_def)+

lemma execute_insert_vacancy_Inr:
  assumes "execute_insert_vacancy rejects self t = (Inr u, self1)"
  shows "\<not> failed_transaction self \<and> \<not> rejects t \<and> \<not> failed_transaction self1 \<and>
         companies_table self1 = companies_table self \<and>
         companies_id_seq self1 = companies_id_seq self \<and>
         vacancies_table self1 =
           (if tuple_url t \<in> v_url ` set (vacancies_table self) then vacancies_table self
            else vacancies_table self @ [new_row (vacancies_id_seq self) t])"
  using assms
  by (auto simp: execute_insert_vacancy_def Let_def image_iff split: if_splits)


lemma executemany_Inr:
  assumes "executemany_insert_vacancy rejects self ts = (Inr u, self1)"
  shows "failed_transaction self1 = failed_transaction self \<and>
         companies_table self1 = companies_table self \<and>
         companies_id_seq self1 = companies_id_seq self \<and>
         (\<forall>t \<in> set ts. \<not> rejects t \<and> tuple_url t \<in> v_url ` set (vacancies_table self1)) \<and>
         (\<exists>new. vacancies_table self1 = vacancies_table self @ new \<and>
            (\<forall>v \<in> set new. v_url v \<notin> v_url ` set (vacancies_table self) \<and> row_tuple v \<in> set ts))"
  using assms
proof (induction ts arbitrary: self)
  case Nil
  then show ?case by simp
next
  case (Cons t ts)
  from Cons.prems obtain u1 selfA where
    one: "execute_insert_vacancy rejects self t = (Inr u1, selfA)" and
    rest: "executemany_insert_vacancy rejects selfA ts = (Inr u, self1)"
    by (auto split: sum.splits prod.splits)
  note A = execute_insert_vacancy_Inr [OF one]
  note B = Cons.IH [OF rest]
  from B obtain new where new: "vacancies_table self1 = vacancies_table selfA @ new"
    and newp: "\<forall>v \<in> set new. v_url v \<notin> v_url ` set (vacancies_table selfA) \<and> row_tuple v \<in> set ts"
    by blast
  have sub: "v_url ` set (vacancies_table self) \<subseteq> v_url ` set (vacancies_table selfA)"
    and tin: "tuple_url t \<in> v_url ` set (vacancies_table selfA)"
    using A by (auto split: if_splits)
  have tin1: "tuple_url t \<in> v_url ` set (vacancies_table self1)"
    using tin new by auto
  show ?case
  proof (cases "tuple_url t \<in> v_url ` set (vacancies_table self)")
    case True
    then have "vacancies_table selfA = vacancies_table self" using A by simp
    then show ?thesis using A B tin1 new newp by auto
  next
    case False
    then have eqA: "vacancies_table selfA = vacancies_table self @ [new_row (vacancies_id_seq self) t]"
      using A by simp
    have "vacancies_table self1 = vacancies_table self @ (new_row (vacancies_id_seq self) t # new)"
      using new eqA by simp
    moreover have "\<forall>v \<in> set (new_row (vacancies_id_seq self) t # new).
        v_url v \<notin> v_url ` set (vacancies_table self) \<and> row_tuple v \<in> set (t # ts)"
      using newp False sub by (simp add: subset_iff) blast
    ultimately show ?thesis using A B tin1 by auto
  qed
qed






lemma bulk_appends:
  "\<exists>new. vacancies_table (snd (insert_vacancies_bulk rejects self recs)) = vacancies_table self @ new \<and>
     (\<forall>v \<in> set new. v_url v \<notin> v_url ` set (vacancies_table self) \<and> row_tuple v \<in> set recs)"
proof (cases "executemany_insert_vacancy rejects self recs")
  case (Pair r self1)
  show ?thesis
  proof (cases r)
    case (Inl e)
    then show ?thesis using Pair by (simp add: insert_vacancies_bulk_def)
  next
    case (Inr u)
    from executemany_Inr [of rejects self recs u self1] Pair Inr show ?thesis
      by (auto simp: insert_vacancies_bulk_def commit_def)
  qed
qed






section \<open>The coordinator: integrity and empty results\<close>

lemma insert_company_effect:
  assumes "insert_company self company_name industry area = (r, self1)"
  shows "vacancies_table self1 = vacancies_table self \<and>
         (\<exists>new. companies_table self1 = companies_table self @ new) \<and>
         (case r of Inl e \<Rightarrow> True | Inr cid \<Rightarrow> cid \<in> c_id ` set (companies_table self1))"
proof (cases "failed_transaction self")
  case True
  then show ?thesis using assms
    by (auto simp: insert_company_def execute_insert_company_def)
next
  case nf: False
  show ?thesis
  proof (cases "filter (\<lambda>c. c_name c = company_name) (companies_table self)")
    case Nil
    then have "\<forall>c \<in> set (companies_table self). c_name c \<noteq> company_name"
      by (simp add: filter_empty_conv)
    from insert_company_new [OF nf this, of industry area] assms
    show ?thesis by auto
  next
    case (Cons c cs)
    have "c \<in> set (filter (\<lambda>c. c_name c = company_name) (companies_table self))"
      using Cons by simp
    then have "c \<in> set (companies_table self)" by simp
    with insert_company_existing [OF nf Cons, of industry area] assms
    show ?thesis by auto
  qed
qed

lemma bulk_effect:
  assumes "insert_vacancies_bulk rejects self recs = (r, self1)"
  shows "companies_table self1 = companies_table self \<and>
         (\<exists>new. vacancies_table self1 = vacancies_table self @ new \<and>
            (\<forall>v \<in> set new. row_tuple v \<in> set recs))"
proof -
  have c: "companies_table (snd (insert_vacancies_bulk rejects self recs)) = companies_table self"
  proof (cases "executemany_insert_vacancy rejects self recs")
    case (Pair r0 self0)
    show ?thesis
    proof (cases r0)
      case (Inl e)
      then show ?thesis using Pair by (simp add: insert_vacancies_bulk_def)
    next
      case (Inr u)
      from executemany_Inr [of rejects self recs u self0] Pair Inr show ?thesis
        by (simp add: insert_vacancies_bulk_def commit_def)
    qed
  qed
  from bulk_appends [of rejects self recs] c assms show ?thesis
    by auto
qed

lemma vacancy_data_company_id [simp]:
  "tuple_company_id (vacancy_data cid v) = cid"
  by (simp add: vacancy_data_def tuple_company_id_def Let_def)

lemma row_tuple_company_id: "tuple_company_id (row_tuple v) = v_company_id v"
  by (simp add: row_tuple_def tuple_company_id_def)

lemma company_task_fk:
  assumes "fk_ok db" and "company_task rejects (db, out) fut = (db', out')"
  shows "fk_ok db'"
proof (cases fut)
  case (Pair company result)
  show ?thesis
  proof (cases result)
    case (Inl e)
    then show ?thesis using assms Pair by (auto simp: company_task_def Let_def)
  next
    case (Inr vs)
    show ?thesis
    proof (cases "vs = []")
      case True
      then show ?thesis using assms Pair Inr by (auto simp: company_task_def Let_def)
    next
      case False
      obtain r db1 where ic: "insert_company db (co_name company) (co_industry company) (co_area company) = (r, db1)"
        by (cases "insert_company db (co_name company) (co_industry company) (co_area company)")
      note E = insert_company_effect [OF ic]
      have fk1: "fk_ok db1"
        using assms(1) E by (auto simp: fk_ok_def)
      show ?thesis
      proof (cases r)
        case (Inl e)
        then show ?thesis using assms(2) Pair Inr False ic fk1
          by (auto simp: company_task_def Let_def)
      next
        case (Inr cid)
        obtain r2 db2 where b: "insert_vacancies_bulk rejects db1 (map (vacancy_data cid) vs) = (r2, db2)"
          by (cases "insert_vacancies_bulk rejects db1 (map (vacancy_data cid) vs)")
        note B = bulk_effect [OF b]
        have cin: "cid \<in> c_id ` set (companies_table db1)"
          using E Inr by simp
        from B obtain new where new: "vacancies_table db2 = vacancies_table db1 @ new"
          and newp: "\<forall>v \<in> set new. row_tuple v \<in> set (map (vacancy_data cid) vs)"
          by blast
        have "v_company_id v = cid" if "v \<in> set new" for v
        proof -
          from newp that obtain x where "row_tuple v = vacancy_data cid x" by auto
          then have "tuple_company_id (row_tuple v) = cid" by simp
          then show ?thesis by (simp add: row_tuple_company_id)
        qed
        then have fk2: "fk_ok db2"
          using fk1 new B cin by (auto simp: fk_ok_def)
        have "db' = db2"
          using assms(2) Pair \<open>result = Inr vs\<close> False ic Inr b
          by (cases r2) (simp_all add: company_task_def Let_def)
        then show ?thesis using fk2 by simp
      qed
    qed
  qed
qed

lemma foldl_track_prints:
  "foldl track_call s (map print_vacancy ts) = s"
proof (induction ts)
  case Nil
  then show ?case by simp
next
  case (Cons t ts)
  then show ?case by (cases s; cases t) (simp add: print_vacancy_def)
qed

lemma foldl_track_prints_comp:
  "foldl track_call s (map (print_vacancy \<circ> f) xs) = s"
  using foldl_track_prints [of s "map f xs"] by simp

lemma company_task_calls:
  assumes "foldl track_call (True, None) out = (True, None)"
    and "company_task rejects (db, out) fut = (db', out')"
  shows "foldl track_call (True, None) out' = (True, None)"
proof (cases fut)
  case (Pair company result)
  show ?thesis
  proof (cases result)
    case (Inl e)
    then show ?thesis using assms Pair by (auto simp: company_task_def Let_def)
  next
    case (Inr vs)
    show ?thesis
    proof (cases "vs = []")
      case True
      then show ?thesis using assms Pair Inr by (auto simp: company_task_def Let_def)
    next
      case False
      obtain r db1 where ic: "insert_company db (co_name company) (co_industry company) (co_area company) = (r, db1)"
        by (cases "insert_company db (co_name company) (co_industry company) (co_area company)")
      show ?thesis
      proof (cases r)
        case (Inl e)
        then show ?thesis using assms Pair Inr False ic
          by (auto simp: company_task_def Let_def)
      next
        case (Inr cid)
        obtain r2 db2 where b: "insert_vacancies_bulk rejects db1 (map (vacancy_data cid) vs) = (r2, db2)"
          by (cases "insert_vacancies_bulk rejects db1 (map (vacancy_data cid) vs)")
        have all: "list_all (\<lambda>t. tuple_company_id t = cid) (map (vacancy_data cid) vs)"
          by (simp add: list_all_iff)
        show ?thesis
          using assms Pair \<open>result = Inr vs\<close> False ic Inr b all
          by (cases r2) (auto simp: company_task_def Let_def foldl_track_prints_comp)
      qed
    qed
  qed
qed

lemma run_invariant:
  assumes "fk_ok db" and "foldl track_call (True, None) out = (True, None)"
  shows "fk_ok (fst (foldl (company_task rejects) (db, out) futs)) \<and>
         foldl track_call (True, None) (snd (foldl (company_task rejects) (db, out) futs)) = (True, None)"
  using assms
proof (induction futs arbitrary: db out)
  case Nil
  then show ?case by simp
next
  case (Cons fut futs)
  obtain db' out' where step: "company_task rejects (db, out) fut = (db', out')"
    by (cases "company_task rejects (db, out) fut")
  have "fk_ok db'" by (rule company_task_fk [OF Cons.prems(1) step])
  moreover have "foldl track_call (True, None) out' = (True, None)"
    by (rule company_task_calls [OF Cons.prems(2) step])
  ultimately show ?case using Cons.IH [of db' out'] step by simp
qed

text \<open>
  C8. From a database state in which every vacancy row refers to a company row, a run of
  the coordinator, on any transport, store and list of companies, ends in such a state
  (and so does every run on a shorter list: the states between two tasks). In the events
  of the run, every call of \<open>insert_vacancies_bulk\<close> comes after a call of \<open>insert_company\<close>
  that returned an id, with no other call of the two in between, and all its tuples carry
  that id.
\<close>

theorem C8_company_before_vacancies:
  assumes "fk_ok db_manager"
  shows "fk_ok (fst (get_all_vacancies_for_companies get rejects companies db_manager)) \<and>
         calls_ok (snd (get_all_vacancies_for_companies get rejects companies db_manager))"
proof (cases "companies = []")
  case True
  then show ?thesis using assms
    by (simp add: get_all_vacancies_for_companies_def calls_ok_def)
next
  case False
  have "foldl track_call (True, None) [] = (True, None)" by simp
  from run_invariant [OF assms this] False show ?thesis
    by (simp add: get_all_vacancies_for_companies_def calls_ok_def Let_def)
qed


lemma fetch_acme: "snd (get_vacancies_for_company three_get (Some ''1'') 5) = Inr acme_vacancies"
  by (simp add: get_vacancies_for_company_def upt_conv_Cons three_get_def page_request_def
      truthy_str_def get_items_def acme_vacancies_def)

lemma fetch_idle: "snd (get_vacancies_for_company three_get (Some ''2'') 5) = Inr []"
  by (simp add: get_vacancies_for_company_def upt_conv_Cons three_get_def page_request_def
      truthy_str_def get_items_def)

lemma fetch_offline: "snd (get_vacancies_for_company three_get (Some ''3'') 5) = Inl RequestException"
  by (simp add: get_vacancies_for_company_def upt_conv_Cons three_get_def page_request_def
      truthy_str_def get_items_def)

lemma demo_run:
  "get_all_vacancies_for_companies three_get no_rejects [acme, idle, offline] empty_db =
     (\<lparr> companies_table =
          [\<lparr> c_id = 1, c_name = ''Acme'', c_industry = Some ''IT'', c_area = None \<rparr>],
        vacancies_table =
          [\<lparr> v_id = 1, v_title = ''dev'', v_salary_min = Some 1000, v_salary_max = Some 2000,
             v_url = ''u1'', v_company_id = 1 \<rparr>,
           \<lparr> v_id = 2, v_title = ''ops'', v_salary_min = None, v_salary_max = None,
             v_url = ''u2'', v_company_id = 1 \<rparr>],
        companies_id_seq = 2, vacancies_id_seq = 3, failed_transaction = False \<rparr>,
      [Insert_company ''Acme'' (Some ''IT'') None (Inr 1),
       Printed_vacancy ''dev'' (Some 1000) (Some 2000) ''u1'',
       Printed_vacancy ''ops'' None None ''u2'',
       Insert_vacancies_bulk
         [(''dev'', Some 1000, Some 2000, ''u1'', 1), (''ops'', None, None, ''u2'', 1)] (Inr ()),
       Printed_error ''Offline'' RequestException])"
proof -
  have a: "snd (get_vacancies_for_company three_get (Some (co_id acme)) 5) = Inr acme_vacancies"
    and i: "snd (get_vacancies_for_company three_get (Some (co_id idle)) 5) = Inr []"
    and d: "snd (get_vacancies_for_company three_get (Some (co_id offline)) 5) = Inl RequestException"
    using fetch_acme fetch_idle fetch_offline by (simp_all add: acme_def idle_def offline_def)
  have data: "map (vacancy_data 1) acme_vacancies =
      [(''dev'', Some 1000, Some 2000, ''u1'', 1), (''ops'', None, None, ''u2'', 1)]"
    by (simp add: acme_vacancies_def vacancy_data_def get_or_def)
  have ic: "insert_company empty_db ''Acme'' (Some ''IT'') None =
      (Inr 1, empty_db\<lparr> companies_id_seq := 2,
         companies_table := [\<lparr> c_id = 1, c_name = ''Acme'', c_industry = Some ''IT'', c_area = None \<rparr>] \<rparr>)"
    by (simp add: insert_company_def execute_insert_company_def commit_def fetchone_def
        empty_db_def)
  have ne: "acme_vacancies \<noteq> []" by (simp add: acme_vacancies_def)
  have t1: "company_task no_rejects (empty_db, []) (acme, Inr acme_vacancies) =
     (\<lparr> companies_table =
          [\<lparr> c_id = 1, c_name = ''Acme'', c_industry = Some ''IT'', c_area = None \<rparr>],
        vacancies_table =
          [\<lparr> v_id = 1, v_title = ''dev'', v_salary_min = Some 1000, v_salary_max = Some 2000,
             v_url = ''u1'', v_company_id = 1 \<rparr>,
           \<lparr> v_id = 2, v_title = ''ops'', v_salary_min = None, v_salary_max = None,
             v_url = ''u2'', v_company_id = 1 \<rparr>],
        companies_id_seq = 2, vacancies_id_seq = 3, failed_transaction = False \<rparr>,
      [Insert_company ''Acme'' (Some ''IT'') None (Inr 1),
       Printed_vacancy ''dev'' (Some 1000) (Some 2000) ''u1'',
       Printed_vacancy ''ops'' None None ''u2'',
       Insert_vacancies_bulk
         [(''dev'', Some 1000, Some 2000, ''u1'', 1), (''ops'', None, None, ''u2'', 1)] (Inr ())])"
    using ne
    by (simp add: company_task_def acme_def ic data print_vacancy_def)
      (simp add: insert_vacancies_bulk_def execute_insert_vacancy_def no_rejects_def commit_def
        empty_db_def Let_def tuple_url_def tuple_company_id_def new_row_def)
  show ?thesis
    by (simp add: get_all_vacancies_for_companies_def a i d t1)
      (simp add: company_task_def idle_def offline_def)
qed

theorem C8_company_before_vacancies_witness:
  "fk_ok empty_db \<and>
   fk_ok (fst (get_all_vacancies_for_companies three_get no_rejects [acme, idle, offline] empty_db)) \<and>
   calls_ok (snd (get_all_vacancies_for_companies three_get no_rejects [acme, idle, offline] empty_db)) \<and>
   map v_company_id (vacancies_table
     (fst (get_all_vacancies_for_companies three_get no_rejects [acme, idle, offline] empty_db))) = [1, 1] \<and>
   map c_id (companies_table
     (fst (get_all_vacancies_for_companies three_get no_rejects [acme, idle, offline] empty_db))) = [1]"
proof -
  have h: "fk_ok empty_db" by (simp add: fk_ok_def empty_db_def)
  from C8_company_before_vacancies [OF h, of three_get no_rejects "[acme, idle, offline]"] h
  show ?thesis by (simp add: demo_run)
qed

lemma run_skips_empty:
  assumes "snd (get_vacancies_for_company get (Some (co_id company)) 5) = Inr []"
  shows "foldl (company_task rejects) st
           (map (\<lambda>company. (company, snd (get_vacancies_for_company get (Some (co_id company)) 5)))
              (cs1 @ company # cs2)) =
         foldl (company_task rejects) st
           (map (\<lambda>company. (company, snd (get_vacancies_for_company get (Some (co_id company)) 5)))
              (cs1 @ cs2))"
proof -
  have "company_task rejects st' (company, Inr []) = st'" for st'
    by (cases st') (simp add: company_task_def)
  then show ?thesis using assms by simp
qed

text \<open>
  C7. When the fetch of a company returns the empty list, its task leaves the database and
  the events as they are (no call of \<open>db_manager\<close>, nothing printed), and the whole run ends
  in the same database state, after the same calls, as the run on the list without that
  company.
\<close>

theorem C7_empty_result_no_persistence:
  assumes "snd (get_vacancies_for_company get (Some (co_id company)) 5) = Inr []"
  shows "company_task rejects (db, out)
           (company, snd (get_vacancies_for_company get (Some (co_id company)) 5)) = (db, out) \<and>
         get_all_vacancies_for_companies get rejects (cs1 @ company # cs2) db =
           get_all_vacancies_for_companies get rejects (cs1 @ cs2) db"
proof
  show "company_task rejects (db, out)
           (company, snd (get_vacancies_for_company get (Some (co_id company)) 5)) = (db, out)"
    using assms by (simp add: company_task_def)
  show "get_all_vacancies_for_companies get rejects (cs1 @ company # cs2) db =
           get_all_vacancies_for_companies get rejects (cs1 @ cs2) db"
  proof (cases "cs1 @ cs2 = []")
    case True
    then show ?thesis using assms
      by (simp add: get_all_vacancies_for_companies_def company_task_def)
  next
    case False
    then show ?thesis using run_skips_empty [OF assms]
      by (simp add: get_all_vacancies_for_companies_def Let_def)
  qed
qed

theorem C7_empty_result_witness:
  "snd (get_vacancies_for_company three_get (Some (co_id idle)) 5) = Inr [] \<and>
   get_all_vacancies_for_companies three_get no_rejects [acme, idle, offline] empty_db =
     get_all_vacancies_for_companies three_get no_rejects [acme, offline] empty_db \<and>
   map c_name (companies_table
     (fst (get_all_vacancies_for_companies three_get no_rejects [acme, idle, offline] empty_db))) =
     [''Acme'']"
proof -
  have h: "snd (get_vacancies_for_company three_get (Some (co_id idle)) 5) = Inr []"
    using fetch_idle by (simp add: idle_def)
  have e: "get_all_vacancies_for_companies three_get no_rejects [acme, idle, offline] empty_db =
     get_all_vacancies_for_companies three_get no_rejects [acme, offline] empty_db"
    using C7_empty_result_no_persistence [OF h, of no_rejects empty_db "[]" "[acme]" "[offline]"]
    by simp
  have v: "map c_name (companies_table
     (fst (get_all_vacancies_for_companies three_get no_rejects [acme, idle, offline] empty_db))) =
     [''Acme'']"
    by (simp add: demo_run)
  show ?thesis using h e v by (intro conjI)
qed

section \<open>The coordinator: failures\<close>

text \<open>An exception of the fetch is caught and printed, and the database ends as in the run
  without that company.\<close>

lemma company_task_fetch_error:
  "company_task rejects (db, out) (company, Inl e) = (db, out @ [Printed_error (co_name company) e])"
  by (simp add: company_task_def)

lemma company_task_db_only:
  "fst (company_task rejects (db, out) fut) = fst (company_task rejects (db, out2) fut)"
  by (cases fut) (auto simp: company_task_def Let_def split: sum.splits prod.splits)

lemma foldl_task_db_only:
  "fst (foldl (company_task rejects) (db, out) futs) =
   fst (foldl (company_task rejects) (db, out2) futs)"
proof (induction futs arbitrary: db out out2)
  case Nil
  then show ?case by simp
next
  case (Cons fut futs)
  obtain db1 o1 where a: "company_task rejects (db, out) fut = (db1, o1)"
    by (cases "company_task rejects (db, out) fut")
  obtain db2 o2 where b: "company_task rejects (db, out2) fut = (db2, o2)"
    by (cases "company_task rejects (db, out2) fut")
  have "db1 = db2"
    using company_task_db_only [of rejects db out fut out2] a b by simp
  then show ?case using a b Cons.IH [of db1 o1 o2] by simp
qed

lemma fetch_error_isolated:
  assumes "snd (get_vacancies_for_company get (Some (co_id company)) 5) = Inl e"
  shows "fst (get_all_vacancies_for_companies get rejects (cs1 @ company # cs2) db) =
         fst (get_all_vacancies_for_companies get rejects (cs1 @ cs2) db)"
proof -
  let ?fut = "\<lambda>company. (company, snd (get_vacancies_for_company get (Some (co_id company)) 5))"
  obtain db1 o1 where a: "foldl (company_task rejects) (db, []) (map ?fut cs1) = (db1, o1)"
    by (cases "foldl (company_task rejects) (db, []) (map ?fut cs1)")
  have "fst (foldl (company_task rejects) (db, []) (map ?fut (cs1 @ company # cs2))) =
        fst (foldl (company_task rejects) (db1, o1 @ [Printed_error (co_name company) e]) (map ?fut cs2))"
    using a assms by (simp add: company_task_fetch_error)
  also have "\<dots> = fst (foldl (company_task rejects) (db1, o1) (map ?fut cs2))"
    by (rule foldl_task_db_only)
  also have "\<dots> = fst (foldl (company_task rejects) (db, []) (map ?fut (cs1 @ cs2)))"
    using a by simp
  finally show ?thesis
    by (cases "cs1 @ cs2 = []") (simp_all add: get_all_vacancies_for_companies_def Let_def)
qed

lemma fetch_rich: "snd (get_vacancies_for_company four_get (Some ''4'') 5) = Inr rich_vacancies"
  by (simp add: get_vacancies_for_company_def upt_conv_Cons four_get_def page_request_def
      truthy_str_def get_items_def rich_vacancies_def)

lemma fetch_acme4: "snd (get_vacancies_for_company four_get (Some ''1'') 5) = Inr acme_vacancies"
  by (simp add: get_vacancies_for_company_def upt_conv_Cons four_get_def three_get_def
      page_request_def truthy_str_def get_items_def acme_vacancies_def)

text \<open>
  C5. A run on which the isolation of failures does not hold. The store refuses the one
  vacancy of the first company (its salary is outside the column's range); the coordinator
  catches and prints the exception of \<open>insert_vacancies_bulk\<close>, but the transaction of the
  connection stays failed. The fetch of the second company succeeded, yet its
  \<open>insert_company\<close> raises \<open>InFailedSqlTransaction\<close>: neither its row nor its vacancies are
  persisted. The run itself ends.
\<close>

theorem C5_failed_transaction_blocks_later_companies:
  "get_all_vacancies_for_companies four_get schema_rejects [rich, acme] empty_db =
     (\<lparr> companies_table =
          [\<lparr> c_id = 1, c_name = ''Rich'', c_industry = None, c_area = None \<rparr>],
        vacancies_table = [],
        companies_id_seq = 2, vacancies_id_seq = 1, failed_transaction = True \<rparr>,
      [Insert_company ''Rich'' None None (Inr 1),
       Printed_vacancy ''ceo'' (Some 3000000000) None ''u9'',
       Insert_vacancies_bulk [(''ceo'', Some 3000000000, None, ''u9'', 1)] (Inl DataError),
       Printed_error ''Rich'' DataError,
       Insert_company ''Acme'' (Some ''IT'') None (Inl InFailedSqlTransaction),
       Printed_error ''Acme'' InFailedSqlTransaction])"
proof -
  have r: "snd (get_vacancies_for_company four_get (Some (co_id rich)) 5) = Inr rich_vacancies"
    and a: "snd (get_vacancies_for_company four_get (Some (co_id acme)) 5) = Inr acme_vacancies"
    using fetch_rich fetch_acme4 by (simp_all add: rich_def acme_def)
  have data: "map (vacancy_data 1) rich_vacancies = [(''ceo'', Some 3000000000, None, ''u9'', 1)]"
    by (simp add: rich_vacancies_def vacancy_data_def get_or_def)
  have ic: "insert_company empty_db ''Rich'' None None =
      (Inr 1, empty_db\<lparr> companies_id_seq := 2,
         companies_table := [\<lparr> c_id = 1, c_name = ''Rich'', c_industry = None, c_area = None \<rparr>] \<rparr>)"
    by (simp add: insert_company_def execute_insert_company_def commit_def fetchone_def
        empty_db_def)
  have ne: "rich_vacancies \<noteq> []" "acme_vacancies \<noteq> []"
    by (simp_all add: rich_vacancies_def acme_vacancies_def)
  have t1: "company_task schema_rejects (empty_db, []) (rich, Inr rich_vacancies) =
     (\<lparr> companies_table =
          [\<lparr> c_id = 1, c_name = ''Rich'', c_industry = None, c_area = None \<rparr>],
        vacancies_table = [],
        companies_id_seq = 2, vacancies_id_seq = 1, failed_transaction = True \<rparr>,
      [Insert_company ''Rich'' None None (Inr 1),
       Printed_vacancy ''ceo'' (Some 3000000000) None ''u9'',
       Insert_vacancies_bulk [(''ceo'', Some 3000000000, None, ''u9'', 1)] (Inl DataError),
       Printed_error ''Rich'' DataError])"
    using ne
    by (simp add: company_task_def rich_def ic data print_vacancy_def)
      (simp add: insert_vacancies_bulk_def execute_insert_vacancy_def schema_rejects_def
        int_column_ok_def commit_def empty_db_def Let_def tuple_url_def tuple_company_id_def
        new_row_def)
  show ?thesis
    using ne
    by (simp add: get_all_vacancies_for_companies_def r a t1)
      (simp add: company_task_def acme_def insert_company_def execute_insert_company_def Let_def)
qed

section \<open>Average salary: theorems\<close>

text \<open>The loops of \<open>calculate_average_salary\<close> in closed form.\<close>

lemma add_salary_closed:
  "add_salary (total_salary, salary_count) vacancy =
     (if api_counts (vacancy_bounds vacancy)
      then (total_salary + api_salary (vacancy_bounds vacancy), Suc salary_count)
      else (total_salary, salary_count))"
proof (cases "vac_salary vacancy")
  case None
  then show ?thesis
    by (simp add: add_salary_def vacancy_bounds_def api_counts_def truthy_int_def)
next
  case (Some s)
  show ?thesis
  proof (cases "salary_from s"; cases "salary_to s")
  qed (auto simp: add_salary_def vacancy_bounds_def api_counts_def api_salary_def truthy_int_def
        or_zero_def coalesce_def Let_def Some)
qed

lemma foldl_add_salary:
  "foldl add_salary (total_salary, salary_count) vacancies =
     (total_salary + sum_list (map api_salary (filter api_counts (map vacancy_bounds vacancies))),
      salary_count + length (filter api_counts (map vacancy_bounds vacancies)))"
proof (induction vacancies arbitrary: total_salary salary_count)
  case Nil
  then show ?case by simp
next
  case (Cons v vs)
  show ?case
    by (simp add: add_salary_closed Cons.IH add.assoc)
qed

lemma foldl_foldl_add_salary:
  "foldl (\<lambda>acc vacancies. foldl add_salary acc vacancies) (total_salary, salary_count) vss =
     (total_salary + sum_list (map api_salary (filter api_counts (map vacancy_bounds (concat vss)))),
      salary_count + length (filter api_counts (map vacancy_bounds (concat vss))))"
proof (induction vss arbitrary: total_salary salary_count)
  case Nil
  then show ?case by simp
next
  case (Cons vs vss)
  show ?case
    by (simp add: foldl_add_salary Cons.IH add.assoc)
qed

lemma salary_totals_closed:
  "salary_totals vbc =
     (sum_list (map api_salary (filter api_counts (map vacancy_bounds (concat (map snd vbc))))),
      length (filter api_counts (map vacancy_bounds (concat (map snd vbc)))))"
  by (simp add: salary_totals_def foldl_foldl_add_salary)

lemma calculate_average_salary_closed:
  "calculate_average_salary vbc =
     Inr (if filter api_counts (map vacancy_bounds (concat (map snd vbc))) = [] then 0
          else sum_list (map api_salary (filter api_counts (map vacancy_bounds (concat (map snd vbc)))))
               / of_nat (length (filter api_counts (map vacancy_bounds (concat (map snd vbc))))))"
  by (simp add: calculate_average_salary_def salary_totals_closed py_truediv_def)

text \<open>The query of \<open>DBManager\<close>: the mean when the bounds of every selected row add up within
  32 bits, an exception otherwise.\<close>

lemma avg_arguments_fits:
  assumes "list_all sum_fits (map row_bounds vs)"
  shows "avg_arguments vs =
           Inr (map (\<lambda>v. of_int (coalesce (v_salary_min v) 0 + coalesce (v_salary_max v) 0) / 2) vs)"
  using assms
  by (induction vs) (simp_all add: sum_fits_def row_bounds_def int4_add_def)

lemma avg_arguments_overflow:
  assumes "\<not> list_all sum_fits (map row_bounds vs)"
  shows "avg_arguments vs = Inl DataError"
  using assms
  by (induction vs) (auto simp: sum_fits_def row_bounds_def int4_add_def split: sum.splits)

lemma filter_present_rows:
  "filter spec_bound_present (map row_bounds vs) =
     map row_bounds (filter (\<lambda>v. v_salary_min v \<noteq> None \<or> v_salary_max v \<noteq> None) vs)"
  by (induction vs) (simp_all add: spec_bound_present_def row_bounds_def)

lemma get_avg_salary_closed:
  assumes "\<not> failed_transaction self"
    and "list_all sum_fits (filter spec_bound_present (map row_bounds (vacancies_table self)))"
  shows "get_avg_salary self =
     (Inr (if filter spec_bound_present (map row_bounds (vacancies_table self)) = [] then None
           else Some (spec_average_salary (map row_bounds (vacancies_table self)))), self)"
proof -
  define sel where
    "sel = filter (\<lambda>v. v_salary_min v \<noteq> None \<or> v_salary_max v \<noteq> None) (vacancies_table self)"
  have p: "filter spec_bound_present (map row_bounds (vacancies_table self)) = map row_bounds sel"
    unfolding sel_def by (rule filter_present_rows)
  have m: "spec_midpoint \<circ> row_bounds =
        (\<lambda>v. of_int (coalesce (v_salary_min v) 0 + coalesce (v_salary_max v) 0) / 2)"
    by (rule ext) (simp add: spec_midpoint_def row_bounds_def)
  have "list_all sum_fits (map row_bounds sel)"
    using assms(2) unfolding p .
  then have args: "avg_arguments sel =
      Inr (map (\<lambda>v. of_int (coalesce (v_salary_min v) 0 + coalesce (v_salary_max v) 0) / 2) sel)"
    by (rule avg_arguments_fits)
  have g: "get_avg_salary self =
      (case avg_arguments sel of
         Inl e \<Rightarrow> (Inl e, self\<lparr> failed_transaction := True \<rparr>)
       | Inr xs \<Rightarrow> (Inr (sql_avg xs), self))"
    using assms(1) unfolding sel_def by (simp add: get_avg_salary_def)
  show ?thesis
    unfolding g args p
    by (simp add: sql_avg_def spec_average_salary_def p m)
qed

lemma get_avg_salary_overflow:
  assumes "\<not> failed_transaction self"
    and "\<not> list_all sum_fits (filter spec_bound_present (map row_bounds (vacancies_table self)))"
  shows "get_avg_salary self = (Inl DataError, self\<lparr> failed_transaction := True \<rparr>)"
proof -
  define sel where
    "sel = filter (\<lambda>v. v_salary_min v \<noteq> None \<or> v_salary_max v \<noteq> None) (vacancies_table self)"
  have p: "filter spec_bound_present (map row_bounds (vacancies_table self)) = map row_bounds sel"
    unfolding sel_def by (rule filter_present_rows)
  have "\<not> list_all sum_fits (map row_bounds sel)"
    using assms(2) unfolding p .
  then have args: "avg_arguments sel = Inl DataError"
    by (rule avg_arguments_overflow)
  have g: "get_avg_salary self =
      (case avg_arguments sel of
         Inl e \<Rightarrow> (Inl e, self\<lparr> failed_transaction := True \<rparr>)
       | Inr xs \<Rightarrow> (Inr (sql_avg xs), self))"
    using assms(1) unfolding sel_def by (simp add: get_avg_salary_def)
  show ?thesis
    unfolding g args by simp
qed

text \<open>
  C2, as amended. \<open>DBManager.get_avg_salary\<close>, on a usable connection and a table in which the
  two bounds of every row with a bound add up within the range of \<open>INT\<close>, returns the average
  that the specification words: over the rows with at least one bound not null, the mean of
  \<open>(coalesce(min, 0) + coalesce(max, 0)) / 2\<close>; it returns \<open>NULL\<close> when there is no such row,
  and leaves the connection as it was.
  \<open>calculate_average_salary\<close> returns the mean over the vacancies with at least one bound that
  is present and not zero, of the midpoint when both bounds are so and of the one such bound
  otherwise; the other vacancies add neither to the sum nor to the count, and the result is
  0 when no vacancy counts.
\<close>

theorem C2_average_salary_amended:
  "(\<not> failed_transaction self \<longrightarrow>
    list_all sum_fits (filter spec_bound_present (map row_bounds (vacancies_table self))) \<longrightarrow>
      get_avg_salary self =
        (Inr (if filter spec_bound_present (map row_bounds (vacancies_table self)) = [] then None
              else Some (spec_average_salary (map row_bounds (vacancies_table self)))), self)) \<and>
   calculate_average_salary vacancies_by_company =
     Inr (if filter api_counts (map vacancy_bounds (concat (map snd vacancies_by_company))) = [] then 0
          else sum_list (map api_salary
                 (filter api_counts (map vacancy_bounds (concat (map snd vacancies_by_company)))))
               / of_nat (length
                 (filter api_counts (map vacancy_bounds (concat (map snd vacancies_by_company))))))"
  using get_avg_salary_closed [of self] calculate_average_salary_closed [of vacancies_by_company]
  by blast

text \<open>C2 as stated fails for \<open>calculate_average_salary\<close>: one vacancy with the lower bound
  1000 and no upper bound has the average 1000, where the midpoint with the absent bound
  taken as 0 is 500.\<close>

theorem C2_average_salary_counterexample:
  "calculate_average_salary [(''Acme'', [one_sided])] = Inr 1000 \<and>
   spec_average_salary (map vacancy_bounds (concat (map snd [(''Acme'', [one_sided])]))) = 500 \<and>
   calculate_average_salary [(''Acme'', [one_sided])] \<noteq>
     Inr (spec_average_salary (map vacancy_bounds (concat (map snd [(''Acme'', [one_sided])]))))"
proof -
  have a: "calculate_average_salary [(''Acme'', [one_sided])] = Inr 1000"
    by (simp add: calculate_average_salary_def salary_totals_def add_salary_def one_sided_def
        truthy_int_def or_zero_def py_truediv_def)
  have b: "spec_average_salary (map vacancy_bounds (concat (map snd [(''Acme'', [one_sided])]))) = 500"
    by (simp add: spec_average_salary_def vacancy_bounds_def one_sided_def spec_bound_present_def
        spec_midpoint_def coalesce_def)
  show ?thesis using a b by simp
qed

theorem C2_average_salary_witness:
  "\<not> failed_transaction demo_db \<and>
   list_all sum_fits (filter spec_bound_present (map row_bounds (vacancies_table demo_db))) \<and>
   get_avg_salary demo_db = (Inr (Some 1500), demo_db) \<and>
   calculate_average_salary [(''Acme'', acme_vacancies), (''Other'', [one_sided])] = Inr 1250"
proof -
  have h: "\<not> failed_transaction demo_db" by (simp add: demo_db_def)
  have fits: "list_all sum_fits (filter spec_bound_present (map row_bounds (vacancies_table demo_db)))"
    by (simp add: demo_db_def row_bounds_def spec_bound_present_def sum_fits_def coalesce_def)
  have d: "(if filter spec_bound_present (map row_bounds (vacancies_table demo_db)) = [] then None
             else Some (spec_average_salary (map row_bounds (vacancies_table demo_db)))) = Some 1500"
    by (simp add: demo_db_def row_bounds_def spec_bound_present_def spec_average_salary_def
        spec_midpoint_def coalesce_def)
  have bs: "filter api_counts (map vacancy_bounds
        (concat (map snd [(''Acme'', acme_vacancies), (''Other'', [one_sided])]))) =
      [(Some 1000, Some 2000), (Some 1000, None)]"
    by (simp add: acme_vacancies_def one_sided_def vacancy_bounds_def api_counts_def truthy_int_def)
  have api: "calculate_average_salary [(''Acme'', acme_vacancies), (''Other'', [one_sided])] =
     Inr (if filter api_counts (map vacancy_bounds
            (concat (map snd [(''Acme'', acme_vacancies), (''Other'', [one_sided])]))) = [] then 0
          else sum_list (map api_salary (filter api_counts (map vacancy_bounds
                 (concat (map snd [(''Acme'', acme_vacancies), (''Other'', [one_sided])])))))
               / of_nat (length (filter api_counts (map vacancy_bounds
                 (concat (map snd [(''Acme'', acme_vacancies), (''Other'', [one_sided])]))))))"
    and db: "get_avg_salary demo_db =
        (Inr (if filter spec_bound_present (map row_bounds (vacancies_table demo_db)) = [] then None
              else Some (spec_average_salary (map row_bounds (vacancies_table demo_db)))), demo_db)"
    using C2_average_salary_amended
      [of demo_db "[(''Acme'', acme_vacancies), (''Other'', [one_sided])]"] h fits
    by blast+
  have "calculate_average_salary [(''Acme'', acme_vacancies), (''Other'', [one_sided])] = Inr 1250"
    unfolding api bs by (simp add: api_salary_def truthy_int_def coalesce_def)
  moreover have "get_avg_salary demo_db = (Inr (Some 1500), demo_db)"
    unfolding db d by simp
  ultimately show ?thesis using h fits by simp
qed

text \<open>
  C10. \<open>calculate_average_salary\<close> returns a number on every input: it never raises
  \<open>ZeroDivisionError\<close>. When \<open>salary_count\<close> is 0 at the end of the loops it returns 0, and
  \<open>salary_count\<close> is 0 whenever every vacancy has no salary sub-object or no true bound in it.
  When \<open>salary_count\<close> is positive the result is the division, which then does not raise.
\<close>

theorem C10_average_salary_total:
  "(\<exists>r. calculate_average_salary vacancies_by_company = Inr r) \<and>
   (snd (salary_totals vacancies_by_company) = 0 \<longrightarrow>
      calculate_average_salary vacancies_by_company = Inr 0) \<and>
   ((\<forall>vacancy \<in> set (concat (map snd vacancies_by_company)).
        case vac_salary vacancy of
          None \<Rightarrow> True
        | Some salary \<Rightarrow> \<not> truthy_int (salary_from salary) \<and> \<not> truthy_int (salary_to salary)) \<longrightarrow>
      snd (salary_totals vacancies_by_company) = 0) \<and>
   (0 < snd (salary_totals vacancies_by_company) \<longrightarrow>
      calculate_average_salary vacancies_by_company =
        py_truediv (fst (salary_totals vacancies_by_company)) (snd (salary_totals vacancies_by_company)) \<and>
      py_truediv (fst (salary_totals vacancies_by_company)) (snd (salary_totals vacancies_by_company))
        \<noteq> Inl ZeroDivisionError)"
proof (intro conjI impI)
  show "\<exists>r. calculate_average_salary vacancies_by_company = Inr r"
    by (simp add: calculate_average_salary_closed)
  show "calculate_average_salary vacancies_by_company = Inr 0"
    if "snd (salary_totals vacancies_by_company) = 0"
    using that by (cases "salary_totals vacancies_by_company") (simp add: calculate_average_salary_def)
  show "snd (salary_totals vacancies_by_company) = 0"
    if "\<forall>vacancy \<in> set (concat (map snd vacancies_by_company)).
        case vac_salary vacancy of
          None \<Rightarrow> True
        | Some salary \<Rightarrow> \<not> truthy_int (salary_from salary) \<and> \<not> truthy_int (salary_to salary)"
  proof -
    have "\<not> api_counts (vacancy_bounds v)" if v: "v \<in> set (concat (map snd vacancies_by_company))" for v
    proof -
      have "case vac_salary v of
              None \<Rightarrow> True
            | Some salary \<Rightarrow> \<not> truthy_int (salary_from salary) \<and> \<not> truthy_int (salary_to salary)"
        using \<open>\<forall>vacancy \<in> set (concat (map snd vacancies_by_company)). _\<close> v by (rule bspec)
      then show ?thesis
        by (cases "vac_salary v") (simp_all add: api_counts_def vacancy_bounds_def truthy_int_def)
    qed
    then have "filter api_counts (map vacancy_bounds (concat (map snd vacancies_by_company))) = []"
      by (auto simp: filter_empty_conv)
    then show ?thesis by (simp add: salary_totals_closed)
  qed
  show "calculate_average_salary vacancies_by_company =
        py_truediv (fst (salary_totals vacancies_by_company)) (snd (salary_totals vacancies_by_company))"
    if "0 < snd (salary_totals vacancies_by_company)"
    using that by (cases "salary_totals vacancies_by_company") (simp add: calculate_average_salary_def)
  show "py_truediv (fst (salary_totals vacancies_by_company)) (snd (salary_totals vacancies_by_company))
        \<noteq> Inl ZeroDivisionError"
    if "0 < snd (salary_totals vacancies_by_company)"
    using that by (simp add: py_truediv_def)
qed


theorem C10_average_salary_witness:
  "snd (salary_totals [(''Acme'', unpaid)]) = 0 \<and>
   calculate_average_salary [(''Acme'', unpaid)] = Inr 0 \<and>
   0 < snd (salary_totals [(''Acme'', acme_vacancies)]) \<and>
   calculate_average_salary [(''Acme'', acme_vacancies)] = Inr 1500"
proof -
  have none: "\<forall>vacancy \<in> set (concat (map snd [(''Acme'', unpaid)])).
        case vac_salary vacancy of
          None \<Rightarrow> True
        | Some salary \<Rightarrow> \<not> truthy_int (salary_from salary) \<and> \<not> truthy_int (salary_to salary)"
    by (simp add: unpaid_def truthy_int_def)
  note a = C10_average_salary_total [of "[(''Acme'', unpaid)]"]
  have z: "snd (salary_totals [(''Acme'', unpaid)]) = 0"
    using a none by blast
  have r0: "calculate_average_salary [(''Acme'', unpaid)] = Inr 0"
    using a z by blast
  have t: "salary_totals [(''Acme'', acme_vacancies)] = (1500, 1)"
    by (simp add: salary_totals_def add_salary_def acme_vacancies_def truthy_int_def or_zero_def)
  note b = C10_average_salary_total [of "[(''Acme'', acme_vacancies)]"]
  have p: "0 < snd (salary_totals [(''Acme'', acme_vacancies)])"
    by (simp add: t)
  have "calculate_average_salary [(''Acme'', acme_vacancies)] =
        py_truediv (fst (salary_totals [(''Acme'', acme_vacancies)]))
          (snd (salary_totals [(''Acme'', acme_vacancies)]))"
    using b p by blast
  then have r1: "calculate_average_salary [(''Acme'', acme_vacancies)] = Inr 1500"
    by (simp add: t py_truediv_def)
  show ?thesis using z r0 p r1 by (intro conjI)
qed

section \<open>Keyword search: theorems\<close>

text \<open>Lower case on the examples.\<close>

lemma lower_lead: "ascii_lower ''Team Lead'' = ''team lead''"
  by code_simp

lemma lower_kw: "ascii_lower ''team_lead'' = ''team_lead''"
  by code_simp

lemma lower_pat: "ascii_lower ''%team_lead%'' = ''%team_lead%''"
  by code_simp

text \<open>\<open>sub in s\<close> is: \<open>sub\<close> occurs in \<open>s\<close>. So the search of \<open>hh_api.py\<close> keeps exactly the
  vacancies whose title in lower case holds the keyword in lower case.\<close>

lemma startswith_iff: "startswith s sub \<longleftrightarrow> (\<exists>ys. s = sub @ ys)"
  by (induction s sub rule: startswith.induct) auto

lemma py_in_iff: "py_in sub s \<longleftrightarrow> (\<exists>xs ys. s = xs @ sub @ ys)"
proof (induction s)
  case Nil
  then show ?case by auto
next
  case (Cons d s)
  show ?case
  proof
    assume "py_in sub (d # s)"
    then consider "startswith (d # s) sub" | "py_in sub s" by auto
    then show "\<exists>xs ys. d # s = xs @ sub @ ys"
    proof cases
      case 1
      then obtain ys where "d # s = sub @ ys" by (auto simp: startswith_iff)
      then have "d # s = [] @ sub @ ys" by simp
      then show ?thesis by blast
    next
      case 2
      then obtain xs ys where "s = xs @ sub @ ys" using Cons.IH by auto
      then have "d # s = (d # xs) @ sub @ ys" by simp
      then show ?thesis by blast
    qed
  next
    assume "\<exists>xs ys. d # s = xs @ sub @ ys"
    then obtain xs ys where e: "d # s = xs @ sub @ ys" by auto
    show "py_in sub (d # s)"
    proof (cases xs)
      case Nil
      then have "startswith (d # s) sub" using e by (auto simp: startswith_iff)
      then show ?thesis by simp
    next
      case (Cons x xs')
      then have "s = xs' @ sub @ ys" using e by simp
      then have "py_in sub s" using Cons.IH by auto
      then show ?thesis by simp
    qed
  qed
qed


lemma matching_vacancies_exact:
  "matching_vacancies lower vacancies_by_company keyword =
     map (\<lambda>(company_name, vacancies).
            (company_name,
             filter (\<lambda>vacancy. \<exists>xs ys. lower (get_or (vac_name vacancy) []) = xs @ lower keyword @ ys)
               vacancies))
       vacancies_by_company"
  by (simp add: matching_vacancies_def py_in_iff Let_def)

text \<open>The query of \<open>DBManager\<close> does the same for a keyword without \<open>%\<close>, \<open>_\<close> and
  backslash: the rows it returns, in whatever order, are those of the vacancies whose title
  in lower case holds the keyword in lower case.\<close>

lemma like_tokens_plain:
  assumes "list_all plain_char k" and "like_tokens rest = Some ts"
  shows "like_tokens (k @ rest) = Some (map Literal k @ ts)"
  using assms by (induction k) (simp_all add: plain_char_def)

lemma like_match_any_string:
  "like_match (Any_string # ts) s \<longleftrightarrow> (\<exists>xs r. s = xs @ r \<and> like_match ts r)"
proof (induction s)
  case Nil
  then show ?case by simp
next
  case (Cons c s)
  show ?case
  proof
    assume "like_match (Any_string # ts) (c # s)"
    then consider "like_match ts (c # s)" | "like_match (Any_string # ts) s" by auto
    then show "\<exists>xs r. c # s = xs @ r \<and> like_match ts r"
    proof cases
      case 1
      then have "c # s = [] @ (c # s) \<and> like_match ts (c # s)" by simp
      then show ?thesis by blast
    next
      case 2
      then obtain xs r where "s = xs @ r" "like_match ts r" using Cons.IH by auto
      then have "c # s = (c # xs) @ r \<and> like_match ts r" by simp
      then show ?thesis by blast
    qed
  next
    assume "\<exists>xs r. c # s = xs @ r \<and> like_match ts r"
    then obtain xs r where e: "c # s = xs @ r" and m: "like_match ts r" by auto
    show "like_match (Any_string # ts) (c # s)"
    proof (cases xs)
      case Nil
      then have "like_match ts (c # s)" using e m by simp
      then show ?thesis by simp
    next
      case (Cons x xs')
      then have "s = xs' @ r" using e by simp
      then have "like_match (Any_string # ts) s" using Cons.IH m by auto
      then show ?thesis by simp
    qed
  qed
qed

lemma like_match_literals:
  "like_match (map Literal k @ ts) s \<longleftrightarrow> (\<exists>r. s = k @ r \<and> like_match ts r)"
proof (induction k arbitrary: s)
  case Nil
  then show ?case by simp
next
  case (Cons c k)
  then show ?case by (cases s) auto
qed

lemma like_match_all: "like_match [Any_string] s"
  by (induction s) simp_all

lemma like_contains:
  "like_match (Any_string # map Literal k @ [Any_string]) s \<longleftrightarrow> (\<exists>xs ys. s = xs @ k @ ys)"
  by (simp add: like_match_any_string like_match_literals like_match_all) blast

lemma get_vacancies_with_keyword_plain:
  assumes "\<not> failed_transaction self"
    and "lower (''%'' @ keyword @ ''%'') = ''%'' @ lower keyword @ ''%''"
    and "list_all plain_char (lower keyword)"
  shows "\<exists>rows. get_vacancies_with_keyword lower self keyword = Inr rows \<and>
     set rows =
       {(v_title v, v_salary_min v, v_salary_max v, v_url v, c_name c) | v c.
          v \<in> set (vacancies_table self) \<and> c \<in> set (companies_table self) \<and>
          v_company_id v = c_id c \<and>
          (\<exists>xs ys. lower (v_title v) = xs @ lower keyword @ ys)}"
proof -
  have "like_tokens (lower keyword @ ''%'') = Some (map Literal (lower keyword) @ [Any_string])"
    by (rule like_tokens_plain [OF assms(3)]) simp
  then have "like_tokens (''%'' @ lower keyword @ ''%'') =
      Some (Any_string # map Literal (lower keyword) @ [Any_string])"
    by simp
  then have tok: "like_tokens (lower (''%'' @ keyword @ ''%'')) =
      Some (Any_string # map Literal (lower keyword) @ [Any_string])"
    by (simp only: assms(2))
  define rows where
    "rows = map (\<lambda>(v, c). (v_title v, v_salary_min v, v_salary_max v, v_url v, c_name c))
           (filter (\<lambda>(v, c). \<exists>xs ys. lower (v_title v) = xs @ lower keyword @ ys)
             (concat (map (\<lambda>v. map (\<lambda>c. (v, c))
                             (filter (\<lambda>c. v_company_id v = c_id c) (companies_table self)))
                       (vacancies_table self))))"
  have "get_vacancies_with_keyword lower self keyword = Inr rows"
    using assms(1) tok unfolding rows_def
    by (simp add: get_vacancies_with_keyword_def like_contains)
  moreover have "set rows =
       {(v_title v, v_salary_min v, v_salary_max v, v_url v, c_name c) | v c.
          v \<in> set (vacancies_table self) \<and> c \<in> set (companies_table self) \<and>
          v_company_id v = c_id c \<and>
          (\<exists>xs ys. lower (v_title v) = xs @ lower keyword @ ys)}"
    unfolding rows_def by (auto simp: image_iff) blast+
  ultimately show ?thesis by blast
qed

text \<open>
  C9. A search on which \<open>DBManager.get_vacancies_with_keyword\<close> returns a vacancy whose title
  does not contain the keyword: the keyword \<open>team_lead\<close> goes into the pattern as it is, its
  \<open>_\<close> stands for any character, and the title \<open>Team Lead\<close> matches. The keyword in lower
  case does not occur in the title in lower case, and \<open>search_vacancies_by_keyword\<close> of
  \<open>hh_api.py\<close> finds nothing for the same vacancy and keyword.
\<close>

theorem C9_underscore_matches_any_character:
  "get_vacancies_with_keyword ascii_lower lead_db ''team_lead'' =
     Inr [(''Team Lead'', None, None, ''u7'', ''Acme'')] \<and>
   py_in (ascii_lower ''team_lead'') (ascii_lower ''Team Lead'') = False \<and>
   search_vacancies_by_keyword ascii_lower [(''Acme'', [lead_vacancy])] ''team_lead'' =
     [Printed_total ''team_lead'' 0, Printed_end]"
proof -
  have a: "get_vacancies_with_keyword ascii_lower lead_db ''team_lead'' =
     Inr [(''Team Lead'', None, None, ''u7'', ''Acme'')]"
    using lower_pat lower_lead
    by (simp add: get_vacancies_with_keyword_def lead_db_def)
  have b: "py_in (ascii_lower ''team_lead'') (ascii_lower ''Team Lead'') = False"
    by (simp add: lower_kw lower_lead)
  have c: "search_vacancies_by_keyword ascii_lower [(''Acme'', [lead_vacancy])] ''team_lead'' =
     [Printed_total ''team_lead'' 0, Printed_end]"
    using lower_kw lower_lead
    by (simp add: search_vacancies_by_keyword_def matching_vacancies_def lead_vacancy_def get_or_def)
  show ?thesis using a b c by (intro conjI)
qed

end
